theory Spec2Isabelle
  imports Complex_Main "HOL-Library.Log_Nat"
begin

section \<open>JavaScript values\<close>

text \<open>
  A value as it arrives in a JSON request body. A finite number is the rational that
  its IEEE 754 double denotes (the sign of zero is not kept); \<open>JObject\<close> stands for any
  object or array. A \<open>string\<close> is the sequence of its code units, each below \<open>0x100\<close>.
\<close>

datatype jsvalue =
    JUndefined
  | JNull
  | JBool bool
  | JNumber rat
  | JNaN
  | JInfinity
  | JNegInfinity
  | JString string
  | JObject

text \<open>The result of an arithmetic expression.\<close>

datatype jsnum = Number rat | NaN | Infinity | NegInfinity

subsection \<open>Double precision\<close>

text \<open>
  Every arithmetic operation of the language gives the double nearest to the exact
  result, a tie going to the even significand. \<open>ilog2 a\<close> is the integer part of the
  binary logarithm of \<open>a > 0\<close>. A double is \<open>m * 2^e\<close> with \<open>m < 2^53\<close> and
  \<open>-1074 \<le> e\<close>; a result of magnitude \<open>2^1024\<close> or more is an infinity.
\<close>

definition ilog2 :: "rat \<Rightarrow> int" where
  "ilog2 a = (if 1 \<le> a then bitlen \<lfloor>a\<rfloor> - 1 else - bitlen (\<lceil>1 / a\<rceil> - 1))"

definition roundEven :: "rat \<Rightarrow> int" where
  "roundEven y =
     (let f = \<lfloor>y\<rfloor>; d = y - of_int f
      in if d < 1 / 2 then f else if 1 / 2 < d then f + 1 else if even f then f else f + 1)"

definition nearest :: "rat \<Rightarrow> rat" where
  "nearest x =
     (if x = 0 then 0
      else let e = max (ilog2 \<bar>x\<bar> - 52) (- 1074)
           in sgn x * of_int (roundEven (\<bar>x\<bar> / 2 powi e)) * 2 powi e)"

definition double :: "rat \<Rightarrow> jsnum" where
  "double x =
     (let v = nearest x
      in if 2 ^ 1024 \<le> v then Infinity
         else if v \<le> - (2 ^ 1024) then NegInfinity
         else Number v)"

fun jsneg :: "jsnum \<Rightarrow> jsnum" where
  "jsneg (Number a) = Number (- a)"
| "jsneg NaN = NaN"
| "jsneg Infinity = NegInfinity"
| "jsneg NegInfinity = Infinity"

text \<open>\<open>x + y\<close>\<close>

fun jsadd :: "jsnum \<Rightarrow> jsnum \<Rightarrow> jsnum" where
  "jsadd (Number a) (Number b) = double (a + b)"
| "jsadd NaN _ = NaN"
| "jsadd _ NaN = NaN"
| "jsadd (Number a) y = y"
| "jsadd x (Number b) = x"
| "jsadd Infinity Infinity = Infinity"
| "jsadd NegInfinity NegInfinity = NegInfinity"
| "jsadd Infinity NegInfinity = NaN"
| "jsadd NegInfinity Infinity = NaN"

text \<open>\<open>x * y\<close>\<close>

fun jsmul :: "jsnum \<Rightarrow> jsnum \<Rightarrow> jsnum" where
  "jsmul (Number a) (Number b) = double (a * b)"
| "jsmul NaN _ = NaN"
| "jsmul _ NaN = NaN"
| "jsmul (Number a) y = (if a = 0 then NaN else if 0 < a then y else jsneg y)"
| "jsmul x (Number b) = (if b = 0 then NaN else if 0 < b then x else jsneg x)"
| "jsmul Infinity Infinity = Infinity"
| "jsmul NegInfinity NegInfinity = Infinity"
| "jsmul Infinity NegInfinity = NegInfinity"
| "jsmul NegInfinity Infinity = NegInfinity"

text \<open>\<open>x / d\<close> for a constant \<open>d > 0\<close> (the code divides by 100).\<close>

fun jsdiv :: "jsnum \<Rightarrow> rat \<Rightarrow> jsnum" where
  "jsdiv (Number a) d = double (a / d)"
| "jsdiv x d = x"

text \<open>\<open>x > 0\<close>: every comparison with \<open>NaN\<close> is false.\<close>

fun jsgt0 :: "jsnum \<Rightarrow> bool" where
  "jsgt0 (Number a) = (0 < a)"
| "jsgt0 Infinity = True"
| "jsgt0 _ = False"

text \<open>
  \<open>Math.round\<close>: the nearest integer, a tie going up. The result is exact: a double
  of magnitude \<open>2^52\<close> or more is an integer already.
\<close>

fun Math_round :: "jsnum \<Rightarrow> jsnum" where
  "Math_round (Number a) = Number (of_int \<lfloor>a + 1 / 2\<rfloor>)"
| "Math_round x = x"

text \<open>\<open>Math.max(1, x)\<close>: \<open>NaN\<close> as soon as an argument is \<open>NaN\<close>.\<close>

fun Math_max1 :: "jsnum \<Rightarrow> jsnum" where
  "Math_max1 (Number a) = Number (max 1 a)"
| "Math_max1 NaN = NaN"
| "Math_max1 Infinity = Infinity"
| "Math_max1 NegInfinity = Number 1"

text \<open>\<open>Number.isInteger\<close> on a finite number.\<close>

definition isInteger :: "rat \<Rightarrow> bool" where
  "isInteger r = (of_int \<lfloor>r\<rfloor> = r)"

text \<open>\<open>String(x)\<close> of a number, kept symbolic: the decimal text JavaScript prints for it.\<close>

datatype numstr = ToString jsnum

text \<open>\<open>a || b\<close> on an optional string: \<open>undefined\<close> and the empty string are falsy.\<close>

fun orElse :: "string option \<Rightarrow> string \<Rightarrow> string" where
  "orElse None d = d"
| "orElse (Some s) d = (if s = [] then d else s)"

section \<open>Price book\<close>

text \<open>
  \<open>PRICE_BOOK\<close> is a module-level variable: a plain object from item name to price in
  cents. It starts as a copy of \<open>defaultPriceBook\<close> and is replaced as a whole when
  \<open>data/prices.json\<close> is loaded, so the functions below take it as a parameter.
\<close>

type_synonym price_book = "string \<rightharpoonup> rat"

definition defaultPriceBook :: price_book where
  "defaultPriceBook = map_of
    [(''Chicken Over Rice'', 999),
     (''Fish Over Rice'', 999),
     (''Lamb And Chicken Over Rice'', 1099),
     (''Lamb Over Rice'', 1099),
     (''Chicken and Lamb Shawarma'', 799),
     (''Chicken Shawarma'', 799),
     (''Chicken Tikka Roll'', 799),
     (''Kabab Roll'', 799),
     (''Beef Burger'', 699),
     (''Beef Burger Combo'', 999),
     (''Chicken Burger'', 599),
     (''Chicken Burger Combo'', 899),
     (''Fish Burger'', 599),
     (''Fish Burger Combo'', 899),
     (''Zinger Burger'', 599),
     (''Zinger Burger Combo'', 899),
     (''Small Fries'', 299),
     (''Medium Fries'', 399),
     (''Large Fries'', 499),
     (''Chicken Nuggets (5 pc)'', 599),
     (''Chicken Nuggets Combo'', 999),
     (''Chicken Tender (3 pc)'', 599),
     (''Chicken Tender Combo'', 999),
     (''16 OZ Mango Lassi'', 399),
     (''16 OZ Sweet Lassi'', 399),
     (''16 OZ Salt Lassi'', 399),
     (''Soda Can'', 150),
     (''Water Bottle'', 100),
     (''BBQ Wings (5 pc)'', 899),
     (''Buffalo Wings (5 pc)'', 899),
     (''Garlic Parmesan Wings (5 pc)'', 899),
     (''Chicken Kabab'', 250),
     (''Chicken Tikka Boti (5 pc)'', 699),
     (''Tandoor Chicken leg (1 pc)'', 499),
     (''Tandoor Chicken leg (2 pc)'', 899),
     (''Rice Pudding'', 499),
     (''Perry's Ice Cream (8 oz cup)'', 499),
     (''Perry's Cone'', 200),
     (''Gulab Jamun (3 pc)'', 399),
     (''Cheese Pizza (Small)'', 999),
     (''Cheese Pizza (Medium)'', 1299),
     (''Cheese Pizza (Large)'', 1499),
     (''Cheese Pizza (Extra Large)'', 1799),
     (''Veggie Pizza (Small)'', 1199),
     (''Veggie Pizza (Medium)'', 1499),
     (''Veggie Pizza (Large)'', 1799),
     (''Veggie Pizza (Extra Large)'', 2099),
     (''Buffalo Chicken Pizza (Small)'', 1199),
     (''Buffalo Chicken Pizza (Medium)'', 1499),
     (''Buffalo Chicken Pizza (Large)'', 1799),
     (''Buffalo Chicken Pizza (Extra Large)'', 2099),
     (''Pizza Topping (Small)'', 100),
     (''Pizza Topping (Medium)'', 150),
     (''Pizza Topping (Large)'', 150),
     (''Pizza Topping (Extra Large)'', 200)]"

text \<open>
  The property names every plain JavaScript object inherits from \<open>Object.prototype\<close>.
  \<open>PRICE_BOOK[name]\<close> is a property read, so for such a name it yields the inherited
  member (a function or an object, never \<open>null\<close> or \<open>undefined\<close>) unless the table has
  an entry of its own under that name.
\<close>

definition objectPrototypeKeys :: "string list" where
  "objectPrototypeKeys =
    [''constructor'', ''hasOwnProperty'', ''isPrototypeOf'', ''propertyIsEnumerable'',
     ''toLocaleString'', ''toString'', ''valueOf'', ''__proto__'',
     ''__defineGetter__'', ''__defineSetter__'', ''__lookupGetter__'', ''__lookupSetter__'']"

text \<open>What \<open>PRICE_BOOK[name]\<close> evaluates to; \<open>None\<close> is \<open>undefined\<close>.\<close>

datatype jsprice = Cents rat | Inherited string

definition lookupPrice :: "price_book \<Rightarrow> string \<Rightarrow> jsprice option" where
  "lookupPrice PRICE_BOOK name =
     (case PRICE_BOOK name of
        Some c \<Rightarrow> Some (Cents c)
      | None \<Rightarrow> if name \<in> set objectPrototypeKeys then Some (Inherited name) else None)"

text \<open>A price used as an operand of \<open>*\<close>: a function or object converts to \<open>NaN\<close>.\<close>

fun toNumber :: "jsprice \<Rightarrow> jsnum" where
  "toNumber (Cents c) = Number c"
| "toNumber (Inherited _) = NaN"

section \<open>Request body and its schema\<close>

text \<open>
  A cart line as the schema keeps it (\<open>name\<close>, \<open>qty\<close>), and as the client may send it,
  with a price of its own (the browser cart stores \<open>priceCents\<close> on every row).
\<close>

record cart_line =
  name :: string
  qty :: jsvalue

record raw_cart_line = cart_line +
  client_priceCents :: jsvalue

record contact =
  contact_name :: string
  phone :: string
  email :: "string option"

record address_obj =
  address_line_1 :: string
  locality :: "string option"
  administrative_district_level_1 :: "string option"
  postal_code :: "string option"
  country :: "string option"

datatype address = AddressText string | AddressObject address_obj

text \<open>
  The body before (\<open>'l = raw_cart_line\<close>, \<open>'f = string option\<close>) and after
  (\<open>'l = cart_line\<close>, \<open>'f = string\<close>) \<open>CheckoutBody.parse\<close>.
\<close>

record ('l, 'f) body =
  cart :: "'l list"
  contact :: contact
  pickupTime :: "string option"
  fulfillment :: 'f
  address :: "address option"
  paymentToken :: string

type_synonym raw_body = "(raw_cart_line, string option) body"
type_synonym checkout_body = "(cart_line, string) body"

text \<open>
  What the handler can throw, and the reply \<open>400 {success: false, error}\<close> then carries:
  a \<open>ZodError\<close> of the schema, the two errors of \<open>sanitizeCart\<close>, a rejected
  \<open>fetch\<close>, a non-ok reply of either remote call, and the \<open>TypeError\<close> of
  \<open>orderJson.order.id\<close> when an ok reply carries no order.
\<close>

datatype error =
    MalformedRequest
  | UnknownItem string
  | InvalidQuantity string
  | ProviderUnavailable string
  | OrderCreationFailed string
  | OrderReplyWithoutOrder
  | PaymentCaptureFailed string

text \<open>\<open>z.number().int().positive()\<close>\<close>

fun qtySchema :: "jsvalue \<Rightarrow> bool" where
  "qtySchema (JNumber r) = (isInteger r \<and> 0 < r)"
| "qtySchema _ = False"

text \<open>\<open>AddressTextOrObject\<close>\<close>

fun AddressTextOrObject :: "address option \<Rightarrow> bool" where
  "AddressTextOrObject None = True"
| "AddressTextOrObject (Some (AddressText s)) = (1 \<le> length s)"
| "AddressTextOrObject (Some (AddressObject a)) = (1 \<le> length (address_line_1 a))"

text \<open>
  \<open>CheckoutBody.parse\<close>: the test of the schema (\<open>schemaAccepts\<close>) and the value it
  returns (\<open>parsed\<close>). The format test of \<open>z.string().email()\<close> belongs to the schema
  library and is a parameter. Unknown keys are dropped, so a parsed cart line holds
  \<open>name\<close> and \<open>qty\<close> only; a missing \<open>fulfillment\<close> becomes \<open>pickup\<close>.
\<close>

definition schemaAccepts :: "(string \<Rightarrow> bool) \<Rightarrow> raw_body \<Rightarrow> bool" where
  "schemaAccepts isEmail req =
     (list_all (\<lambda>l. qtySchema (qty l)) (cart req)
      \<and> 1 \<le> length (contact_name (contact req))
      \<and> 7 \<le> length (phone (contact req))
      \<and> (case email (contact req) of None \<Rightarrow> True | Some e \<Rightarrow> isEmail e)
      \<and> (case fulfillment req of None \<Rightarrow> True
          | Some f \<Rightarrow> f = ''pickup'' \<or> f = ''delivery'')
      \<and> AddressTextOrObject (address req))"

definition parsed :: "raw_body \<Rightarrow> checkout_body" where
  "parsed req =
     \<lparr> cart = map (\<lambda>l. \<lparr> name = name l, qty = qty l \<rparr>) (cart req),
       contact = contact req,
       pickupTime = pickupTime req,
       fulfillment = (case fulfillment req of None \<Rightarrow> ''pickup'' | Some f \<Rightarrow> f),
       address = address req,
       paymentToken = paymentToken req \<rparr>"

definition CheckoutBody :: "(string \<Rightarrow> bool) \<Rightarrow> raw_body \<Rightarrow> error + checkout_body" where
  "CheckoutBody isEmail req =
     (if schemaAccepts isEmail req then Inr (parsed req) else Inl MalformedRequest)"

section \<open>Cart sanitizer\<close>

text \<open>
  A priced line \<open>{name, qty, priceCents}\<close>. The quantity is the one of the cart line,
  known to be an integer once the check has passed.
\<close>

record item =
  item_name :: string
  item_qty :: int
  priceCents :: jsprice

text \<open>
  The callback of \<open>cart.map\<close>. \<open>Number.isInteger\<close> is false for every value that is not
  a number, and \<open>||\<close> does not evaluate \<open>qty <= 0\<close> then.
\<close>

definition sanitizeLine :: "price_book \<Rightarrow> cart_line \<Rightarrow> error + item" where
  "sanitizeLine PRICE_BOOK l =
     (case lookupPrice PRICE_BOOK (name l) of
        None \<Rightarrow> Inl (UnknownItem (name l))
      | Some price \<Rightarrow>
          (case qty l of
             JNumber r \<Rightarrow>
               if \<not> isInteger r \<or> r \<le> 0 then Inl (InvalidQuantity (name l))
               else Inr \<lparr> item_name = name l, item_qty = \<lfloor>r\<rfloor>, priceCents = price \<rparr>
           | _ \<Rightarrow> Inl (InvalidQuantity (name l))))"

text \<open>\<open>cart.map\<close> runs the callback line by line; the first throw ends it.\<close>

fun sanitizeCart :: "price_book \<Rightarrow> cart_line list \<Rightarrow> error + item list" where
  "sanitizeCart PRICE_BOOK [] = Inr []"
| "sanitizeCart PRICE_BOOK (l # ls) =
     (case sanitizeLine PRICE_BOOK l of
        Inl e \<Rightarrow> Inl e
      | Inr i \<Rightarrow>
          (case sanitizeCart PRICE_BOOK ls of
             Inl e \<Rightarrow> Inl e
           | Inr is \<Rightarrow> Inr (i # is)))"

definition sumCents :: "item list \<Rightarrow> jsnum" where
  "sumCents items =
     foldl (\<lambda>s i. jsadd s (jsmul (toNumber (priceCents i)) (Number (of_int (item_qty i)))))
       (Number 0) items"

section \<open>Order document\<close>

record 'a money =
  amount :: 'a
  currency :: string

text \<open>The amount of a line: the price of an item, or the fee (a number).\<close>

datatype jsamount = OfItem jsprice | OfNumber jsnum

record line_item =
  line_name :: string
  quantity :: numstr
  base_price_money :: "jsamount money"

record tax =
  tax_name :: string
  tax_type :: string
  scope :: string
  percentage :: numstr

record recipient =
  display_name :: string
  phone_number :: string
  email_address :: "string option"

record details =
  recipient :: recipient
  schedule_type :: string

record pickup_details = details +
  pickup_at :: "string option"

record delivery_details = details +
  delivery_address :: "address_obj option"

record fulfillment_block =
  fulfillment_type :: string
  state :: string
  pickup :: "pickup_details option"
  delivery :: "delivery_details option"

record order =
  location_id :: "string option"
  line_items :: "line_item list"
  taxes :: "tax list option"
  fulfillments :: "fulfillment_block list"

text \<open>
  The configuration a request sees: the environment variables read by the handler
  (\<open>Number(process.env.X ?? d)\<close> is a double, an infinity or \<open>NaN\<close>), the location id,
  and the price book of that moment.
\<close>

record config =
  PRICE_BOOK :: price_book
  TAX_RATE_PERCENT :: jsnum
  DELIVERY_FEE_CENTS :: jsnum
  LOCATION_ID :: "string option"

text \<open>\<open>(body.fulfillment || 'pickup') === 'delivery'\<close>\<close>

definition isDelivery :: "checkout_body \<Rightarrow> bool" where
  "isDelivery b = ((if fulfillment b = [] then ''pickup'' else fulfillment b) = ''delivery'')"

text \<open>The priced lines, and the fee line pushed for a delivery with a positive fee.\<close>

definition line_items_of :: "config \<Rightarrow> checkout_body \<Rightarrow> item list \<Rightarrow> line_item list" where
  "line_items_of C b items =
     map (\<lambda>i. \<lparr> line_name = item_name i,
                quantity = ToString (Number (of_int (item_qty i))),
                base_price_money = \<lparr> amount = OfItem (priceCents i), currency = ''USD'' \<rparr> \<rparr>) items
     @ (if isDelivery b \<and> jsgt0 (DELIVERY_FEE_CENTS C)
        then [\<lparr> line_name = ''Delivery Fee'',
                quantity = ToString (Number 1),
                base_price_money =
                  \<lparr> amount = OfNumber (DELIVERY_FEE_CENTS C), currency = ''USD'' \<rparr> \<rparr>]
        else [])"

definition taxes_of :: "config \<Rightarrow> tax list option" where
  "taxes_of C =
     (if jsgt0 (TAX_RATE_PERCENT C)
      then Some [\<lparr> tax_name = ''Sales Tax'', tax_type = ''ADDITIVE'', scope = ''ORDER'',
                   percentage = ToString (TAX_RATE_PERCENT C) \<rparr>]
      else None)"

text \<open>
  The address of a delivery: a string becomes the first address line, an address
  object is copied with \<open>country || 'US'\<close>, and with no address the variable stays
  \<open>undefined\<close>.
\<close>

fun delivery_address_of :: "address option \<Rightarrow> address_obj option" where
  "delivery_address_of (Some (AddressText s)) =
     Some \<lparr> address_line_1 = s, locality = None, administrative_district_level_1 = None,
            postal_code = None, country = Some ''US'' \<rparr>"
| "delivery_address_of (Some (AddressObject a)) =
     Some \<lparr> address_line_1 = address_line_1 a,
            locality = locality a,
            administrative_district_level_1 = administrative_district_level_1 a,
            postal_code = postal_code a,
            country = Some (orElse (country a) ''US'') \<rparr>"
| "delivery_address_of None = None"

definition recipient_of :: "checkout_body \<Rightarrow> recipient" where
  "recipient_of b =
     \<lparr> display_name = contact_name (contact b),
       phone_number = phone (contact b),
       email_address = email (contact b) \<rparr>"

text \<open>\<open>body.pickupTime ? 'SCHEDULED' : 'ASAP'\<close>: the empty string is falsy.\<close>

definition pickup_details_of :: "checkout_body \<Rightarrow> pickup_details" where
  "pickup_details_of b =
     \<lparr> recipient = recipient_of b,
       schedule_type = (case pickupTime b of
                          None \<Rightarrow> ''ASAP''
                        | Some t \<Rightarrow> if t = [] then ''ASAP'' else ''SCHEDULED''),
       pickup_at = pickupTime b \<rparr>"

definition delivery_details_of :: "checkout_body \<Rightarrow> delivery_details" where
  "delivery_details_of b =
     \<lparr> recipient = recipient_of b,
       schedule_type = ''ASAP'',
       delivery_address = delivery_address_of (address b) \<rparr>"

definition fulfillments_of :: "checkout_body \<Rightarrow> fulfillment_block list" where
  "fulfillments_of b =
     [\<lparr> fulfillment_type = (if isDelivery b then ''DELIVERY'' else ''PICKUP''),
        state = ''PROPOSED'',
        pickup = (if isDelivery b then None else Some (pickup_details_of b)),
        delivery = (if isDelivery b then Some (delivery_details_of b) else None) \<rparr>]"

definition orderObj :: "config \<Rightarrow> checkout_body \<Rightarrow> item list \<Rightarrow> order" where
  "orderObj C b items =
     \<lparr> location_id = LOCATION_ID C,
       line_items = line_items_of C b items,
       taxes = taxes_of C,
       fulfillments = fulfillments_of b \<rparr>"

section \<open>Totals\<close>

definition subtotalCents :: "config \<Rightarrow> checkout_body \<Rightarrow> item list \<Rightarrow> jsnum" where
  "subtotalCents C b items =
     jsadd (sumCents items) (if isDelivery b then DELIVERY_FEE_CENTS C else Number 0)"

definition taxCents :: "config \<Rightarrow> checkout_body \<Rightarrow> item list \<Rightarrow> jsnum" where
  "taxCents C b items =
     (if jsgt0 (TAX_RATE_PERCENT C)
      then Math_round (jsmul (subtotalCents C b items) (jsdiv (TAX_RATE_PERCENT C) 100))
      else Number 0)"

definition totalCents :: "config \<Rightarrow> checkout_body \<Rightarrow> item list \<Rightarrow> jsnum" where
  "totalCents C b items = jsadd (subtotalCents C b items) (taxCents C b items)"

section \<open>Remote service and checkout\<close>

record order_payload =
  idempotency_key :: string
  order :: order

record pay_payload =
  pay_idempotency_key :: string
  source_id :: string
  pay_location_id :: "string option"
  amount_money :: "jsnum money"
  order_id :: "string option"

text \<open>
  The JSON of a reply, as far as the handler reads it: \<open>errors?.[0]?.detail\<close>, and the
  \<open>id\<close> of \<open>order\<close> (of \<open>payment\<close>); the outer \<open>None\<close> is a reply without that object.
\<close>

record order_json =
  order_errors_detail :: "string option"
  order_reply :: "string option option"

record pay_json =
  pay_errors_detail :: "string option"
  payment_reply :: "string option option"

text \<open>
  What \<open>await fetch(...)\<close> followed by \<open>await resp.json()\<close> gives: an exception with
  its message, or the \<open>ok\<close> flag of the reply and its JSON.
\<close>

datatype 'j fetched = Rejected string | Fetched bool 'j

text \<open>
  What lies outside the handler. The remote service is a black box: one function per
  endpoint, from the request sent to what comes back. \<open>crypto.randomUUID()\<close> is a
  supply of strings, read at a counter that every call advances. \<open>isEmail\<close> is the
  format test of the schema library.
\<close>

record world =
  orders_api :: "order_payload \<Rightarrow> order_json fetched"
  payments_api :: "pay_payload \<Rightarrow> pay_json fetched"
  randomUUID :: "nat \<Rightarrow> string"
  isEmail :: "string \<Rightarrow> bool"

datatype remote_call = CreateOrder order_payload | CapturePayment pay_payload

text \<open>\<open>res.json({success: true, orderId, paymentId})\<close> or the reply of the \<open>catch\<close>.\<close>

datatype response = Success "string option" "string option" | Failure error

text \<open>
  The outcome of one request taken alone: the reply, the remote calls made in order,
  and the counter of the UUID supply afterwards.
\<close>

record outcome =
  reply :: response
  calls :: "remote_call list"
  uuids :: nat

definition orderPayload :: "config \<Rightarrow> world \<Rightarrow> nat \<Rightarrow> checkout_body \<Rightarrow> item list \<Rightarrow> order_payload" where
  "orderPayload C R n b items =
     \<lparr> idempotency_key = randomUUID R n, order = orderObj C b items \<rparr>"

definition payPayload :: "config \<Rightarrow> world \<Rightarrow> nat \<Rightarrow> checkout_body \<Rightarrow> item list \<Rightarrow> string option \<Rightarrow> pay_payload" where
  "payPayload C R n b items orderId =
     \<lparr> pay_idempotency_key = randomUUID R n,
       source_id = paymentToken b,
       pay_location_id = LOCATION_ID C,
       amount_money = \<lparr> amount = totalCents C b items, currency = ''USD'' \<rparr>,
       order_id = orderId \<rparr>"

text \<open>The second half of the handler: the payment, once the order has an id.\<close>

definition takePayment :: "config \<Rightarrow> world \<Rightarrow> nat \<Rightarrow> checkout_body \<Rightarrow> item list
    \<Rightarrow> order_payload \<Rightarrow> string option \<Rightarrow> outcome" where
  "takePayment C R n b items op orderId =
     (let pp = payPayload C R (n + 1) b items orderId;
          made = [CreateOrder op, CapturePayment pp]
      in case payments_api R pp of
           Rejected m \<Rightarrow>
             \<lparr> reply = Failure (ProviderUnavailable m), calls = made, uuids = n + 2 \<rparr>
         | Fetched ok payJson \<Rightarrow>
             if \<not> ok
             then \<lparr> reply = Failure (PaymentCaptureFailed
                       (orElse (pay_errors_detail payJson) ''Square createPayment failed'')),
                    calls = made, uuids = n + 2 \<rparr>
             else \<lparr> reply = Success orderId
                       (case payment_reply payJson of None \<Rightarrow> None | Some pid \<Rightarrow> pid),
                    calls = made, uuids = n + 2 \<rparr>)"

text \<open>The first half: the order is sent, and its reply decides whether to go on.\<close>

definition createOrder :: "config \<Rightarrow> world \<Rightarrow> nat \<Rightarrow> checkout_body \<Rightarrow> item list \<Rightarrow> outcome" where
  "createOrder C R n b items =
     (let op = orderPayload C R n b items
      in case orders_api R op of
           Rejected m \<Rightarrow>
             \<lparr> reply = Failure (ProviderUnavailable m), calls = [CreateOrder op], uuids = n + 1 \<rparr>
         | Fetched ok orderJson \<Rightarrow>
             if \<not> ok
             then \<lparr> reply = Failure (OrderCreationFailed
                       (orElse (order_errors_detail orderJson) ''Square createOrder failed'')),
                    calls = [CreateOrder op], uuids = n + 1 \<rparr>
             else (case order_reply orderJson of
                     None \<Rightarrow>
                       \<lparr> reply = Failure OrderReplyWithoutOrder,
                         calls = [CreateOrder op], uuids = n + 1 \<rparr>
                   | Some orderId \<Rightarrow> takePayment C R n b items op orderId))"

text \<open>
  The handler of \<open>POST /api/checkout\<close>, started with the UUID counter at \<open>n\<close>.
\<close>

definition checkout :: "config \<Rightarrow> world \<Rightarrow> nat \<Rightarrow> raw_body \<Rightarrow> outcome" where
  "checkout C R n req =
     (case CheckoutBody (isEmail R) req of
        Inl e \<Rightarrow> \<lparr> reply = Failure e, calls = [], uuids = n \<rparr>
      | Inr b \<Rightarrow>
          (case sanitizeCart (PRICE_BOOK C) (cart b) of
             Inl e \<Rightarrow> \<lparr> reply = Failure e, calls = [], uuids = n \<rparr>
           | Inr items \<Rightarrow> createOrder C R n b items))"

text \<open>The idempotency keys of a sequence of remote calls.\<close>

fun key_of :: "remote_call \<Rightarrow> string" where
  "key_of (CreateOrder op) = idempotency_key op"
| "key_of (CapturePayment pp) = pay_idempotency_key pp"

section \<open>Browser cart\<close>

text \<open>
  The quantity argument of \<open>addItem\<close> and \<open>setQty\<close>: left out, a string, or a number.
  A string is the list of its UTF-16 code units; \<open>Text s\<close> is the string of the ASCII
  characters \<open>s\<close>. A number is modelled when it is an integer double below \<open>10^21\<close> in
  magnitude, where \<open>String(n)\<close> is the decimal numeral that \<open>parseInt\<close> reads back as
  \<open>n\<close>.
\<close>

datatype qty_arg = Omitted | Units "nat list" | Count int

definition Text :: "string \<Rightarrow> qty_arg" where
  "Text s = Units (map of_char s)"

text \<open>\<open>qty || "1"\<close>: \<open>undefined\<close>, the empty string and \<open>0\<close> are falsy.\<close>

fun or1 :: "qty_arg \<Rightarrow> qty_arg" where
  "or1 Omitted = Units [49]"
| "or1 (Units s) = (if s = [] then Units [49] else Units s)"
| "or1 (Count n) = (if n = 0 then Units [49] else Count n)"

text \<open>
  The code units \<open>parseInt\<close> skips at the start: the white space and the line
  terminators of the language.
\<close>

definition isWhiteSpace :: "nat \<Rightarrow> bool" where
  "isWhiteSpace c =
     (c \<in> set [0x09, 0x0A, 0x0B, 0x0C, 0x0D, 0x20, 0xA0, 0x1680, 0x2028, 0x2029,
                0x202F, 0x205F, 0x3000, 0xFEFF]
      \<or> (0x2000 \<le> c \<and> c \<le> 0x200A))"

definition isDigit :: "nat \<Rightarrow> bool" where
  "isDigit c = (48 \<le> c \<and> c \<le> 57)"

definition digitsValue :: "nat list \<Rightarrow> int" where
  "digitsValue ds = foldl (\<lambda>a c. 10 * a + (int c - 48)) 0 ds"

text \<open>
  \<open>parseInt(s, 10)\<close>: leading white space is skipped, one sign is read, then the
  longest run of decimal digits; with no digit there the result is \<open>NaN\<close>, otherwise
  the double of the integer read.
\<close>

definition parseInt :: "nat list \<Rightarrow> jsnum" where
  "parseInt s =
     (let t = dropWhile isWhiteSpace s;
          neg = (case t of c # _ \<Rightarrow> c = 45 | [] \<Rightarrow> False);
          u = (case t of c # r \<Rightarrow> if c = 45 \<or> c = 43 then r else t | [] \<Rightarrow> t);
          ds = takeWhile isDigit u
      in if ds = [] then NaN
         else double (of_int (if neg then - digitsValue ds else digitsValue ds)))"

text \<open>The first line of both operations: \<open>Math.max(1, parseInt(qty || "1", 10))\<close>.\<close>

definition coerceQty :: "qty_arg \<Rightarrow> jsnum" where
  "coerceQty q =
     Math_max1 (case or1 q of
                  Units s \<Rightarrow> parseInt s
                | Count n \<Rightarrow> Number (of_int n)
                | Omitted \<Rightarrow> NaN)"

record row =
  row_name :: string
  row_priceCents :: rat
  row_qty :: jsnum

text \<open>\<open>existing.qty += qty\<close> on the first row of that name.\<close>

fun addToExisting :: "string \<Rightarrow> jsnum \<Rightarrow> row list \<Rightarrow> row list" where
  "addToExisting n q [] = []"
| "addToExisting n q (r # rs) =
     (if row_name r = n then r\<lparr> row_qty := jsadd (row_qty r) q \<rparr> # rs
      else r # addToExisting n q rs)"

text \<open>
  \<open>addItem\<close> and \<open>setQty\<close>, from the stored rows to the rows written back. The default
  \<open>qty = 1\<close> of \<open>addItem\<close> and the \<open>"1"\<close> of \<open>||\<close> give the same quantity.
\<close>

definition addItem :: "string \<Rightarrow> rat \<Rightarrow> qty_arg \<Rightarrow> row list \<Rightarrow> row list" where
  "addItem n p q rows =
     (case find (\<lambda>i. row_name i = n) rows of
        Some existing \<Rightarrow> addToExisting n (coerceQty q) rows
      | None \<Rightarrow> rows @ [\<lparr> row_name = n, row_priceCents = p, row_qty = coerceQty q \<rparr>])"

definition setQty :: "int \<Rightarrow> qty_arg \<Rightarrow> row list \<Rightarrow> row list" where
  "setQty index q rows =
     (if 0 \<le> index \<and> index < int (length rows)
      then rows[nat index := (rows ! nat index)\<lparr> row_qty := coerceQty q \<rparr>]
      else rows)"

section \<open>Sample requests\<close>

definition sampleContact :: contact where
  "sampleContact = \<lparr> contact_name = ''Amina'', phone = ''5551234567'', email = None \<rparr>"

definition sampleConfig :: config where
  "sampleConfig =
     \<lparr> PRICE_BOOK = defaultPriceBook, TAX_RATE_PERCENT = Number 8,
       DELIVERY_FEE_CENTS = Number 300, LOCATION_ID = Some ''LOC1'' \<rparr>"

definition sampleUUID :: "nat \<Rightarrow> string" where
  "sampleUUID n = replicate (Suc n) (CHR ''u'')"

text \<open>A remote service that accepts every order and payment, and one that refuses orders.\<close>

definition accepting :: world where
  "accepting =
     \<lparr> orders_api = (\<lambda>p. Fetched True
          \<lparr> order_errors_detail = None, order_reply = Some (Some ''order-1'') \<rparr>),
       payments_api = (\<lambda>p. Fetched True
          \<lparr> pay_errors_detail = None, payment_reply = Some (Some ''payment-1'') \<rparr>),
       randomUUID = sampleUUID,
       isEmail = (\<lambda>s. CHR ''@'' \<in> set s) \<rparr>"

definition refusing :: world where
  "refusing =
     accepting\<lparr> orders_api := (\<lambda>p. Fetched False
       \<lparr> order_errors_detail = Some ''Invalid location'', order_reply = None \<rparr>) \<rparr>"

definition friesPickup :: raw_body where
  "friesPickup =
     \<lparr> cart = [\<lparr> name = ''Small Fries'', qty = JNumber 2, client_priceCents = JNumber 1 \<rparr>],
       contact = sampleContact, pickupTime = None, fulfillment = None,
       address = None, paymentToken = ''cnon:card-nonce-ok'' \<rparr>"

definition friesDelivery :: raw_body where
  "friesDelivery =
     friesPickup\<lparr> fulfillment := Some ''delivery'', address := Some (AddressText ''123 Main St'') \<rparr>"

definition friesDeliveryNoAddress :: raw_body where
  "friesDeliveryNoAddress = friesPickup\<lparr> fulfillment := Some ''delivery'' \<rparr>"

definition friesItems :: "item list" where
  "friesItems = [\<lparr> item_name = ''Small Fries'', item_qty = 2, priceCents = Cents 299 \<rparr>]"

definition zeroFries :: raw_body where
  "zeroFries =
     friesPickup\<lparr> cart := [\<lparr> name = ''Small Fries'', qty = JNumber 0, client_priceCents = JUndefined \<rparr>] \<rparr>"

definition unicorn :: raw_body where
  "unicorn =
     friesPickup\<lparr> cart := [\<lparr> name = ''Unicorn Combo'', qty = JNumber 1, client_priceCents = JUndefined \<rparr>] \<rparr>"

definition constructorCart :: raw_body where
  "constructorCart =
     friesPickup\<lparr> cart := [\<lparr> name = ''constructor'', qty = JNumber 1, client_priceCents = JUndefined \<rparr>] \<rparr>"

definition missingQty :: raw_body where
  "missingQty =
     friesPickup\<lparr> cart := [\<lparr> name = ''Small Fries'', qty = JUndefined, client_priceCents = JUndefined \<rparr>] \<rparr>"

definition friesScheduled :: raw_body where
  "friesScheduled = friesPickup\<lparr> pickupTime := Some ''2025-01-01T12:00:00Z'' \<rparr>"

definition sampleAddress :: address_obj where
  "sampleAddress =
     \<lparr> address_line_1 = ''123 Main St'', locality = Some ''Buffalo'',
       administrative_district_level_1 = Some ''NY'', postal_code = Some ''14201'',
       country = None \<rparr>"

definition friesDeliveryObject :: raw_body where
  "friesDeliveryObject =
     friesPickup\<lparr> fulfillment := Some ''delivery'', address := Some (AddressObject sampleAddress) \<rparr>"

definition friesRow :: row where
  "friesRow = \<lparr> row_name = ''Small Fries'', row_priceCents = 299, row_qty = Number 2 \<rparr>"

definition waterItems :: "item list" where
  "waterItems = [\<lparr> item_name = ''Water Bottle'', item_qty = 14, priceCents = Cents 100 \<rparr>]"

definition waterPickup :: raw_body where
  "waterPickup =
     friesPickup\<lparr> cart := [\<lparr> name = ''Water Bottle'', qty = JNumber 14, client_priceCents = JUndefined \<rparr>] \<rparr>"

definition countyRate :: config where
  "countyRate = sampleConfig\<lparr> TAX_RATE_PERCENT := Number (35 / 4) \<rparr>"

section \<open>Cart sanitizer: results\<close>

lemma isInteger_of_int [simp]: "isInteger (of_int k)"
  by (simp add: isInteger_def)

lemma isInteger_numeral [simp]: "isInteger (numeral k)"
  using isInteger_of_int [of "numeral k"] by simp

lemma isInteger_zero [simp]: "isInteger 0"
  by (simp add: isInteger_def)

lemma isInteger_one [simp]: "isInteger 1"
  by (simp add: isInteger_def)

lemma defaultPriceBook_fries: "defaultPriceBook ''Small Fries'' = Some 299"
  by (simp add: defaultPriceBook_def)

lemma defaultPriceBook_unicorn: "defaultPriceBook ''Unicorn Combo'' = None"
  by (simp add: defaultPriceBook_def)

lemma lookupPrice_own: "PB n = Some c \<Longrightarrow> lookupPrice PB n = Some (Cents c)"
  by (simp add: lookupPrice_def)

lemma sanitizeLine_priced:
  assumes "PB (name l) = Some c" and "qtySchema (qty l)"
  shows "\<exists>i. sanitizeLine PB l = Inr i \<and> priceCents i = Cents c"
proof -
  from assms(2) obtain r where r: "qty l = JNumber r" "isInteger r" "0 < r"
    by (cases "qty l") auto
  with assms(1) show ?thesis
    by (simp add: sanitizeLine_def lookupPrice_own)
qed

text \<open>
  C2. When every name of the cart has an entry in the price book and every quantity is
  a positive integer, \<open>sanitizeCart\<close> succeeds with one line per cart entry, and the
  unit price of the i-th line is the price book's value for the i-th name. The price a
  client attaches to a line (\<open>client_priceCents\<close>, any value) plays no part, and the
  parsed body has no field for a total.
\<close>

theorem sanitizeCart_trusted_prices:
  fixes rc :: "raw_cart_line list"
  assumes "\<forall>l \<in> set rc. name l \<in> dom PB \<and> qtySchema (qty l)"
  shows "\<exists>items. sanitizeCart PB (map (\<lambda>l. \<lparr> name = name l, qty = qty l \<rparr>) rc) = Inr items
           \<and> length items = length rc
           \<and> (\<forall>i < length rc. Some (priceCents (items ! i)) = map_option Cents (PB (name (rc ! i))))"
  using assms
proof (induction rc)
  case Nil
  then show ?case by simp
next
  case (Cons l rc)
  let ?strip = "\<lambda>l::raw_cart_line. \<lparr> name = name l, qty = qty l \<rparr>"
  from Cons.prems obtain c where c: "PB (name l) = Some c" and q: "qtySchema (qty l)"
    by auto
  then obtain i where i: "sanitizeLine PB (?strip l) = Inr i" "priceCents i = Cents c"
    using sanitizeLine_priced [of PB "?strip l" c] by auto
  from Cons obtain items where items:
    "sanitizeCart PB (map ?strip rc) = Inr items" "length items = length rc"
    "\<forall>j < length rc. Some (priceCents (items ! j)) = map_option Cents (PB (name (rc ! j)))"
    by auto
  have "\<forall>j < length (l # rc).
          Some (priceCents ((i # items) ! j)) = map_option Cents (PB (name ((l # rc) ! j)))"
  proof (intro allI impI)
    fix j assume "j < length (l # rc)"
    then show "Some (priceCents ((i # items) ! j)) = map_option Cents (PB (name ((l # rc) ! j)))"
      using c i(2) items(3) by (cases j) auto
  qed
  with i(1) items(1,2) show ?case by simp
qed

theorem sanitizeCart_trusted_prices_witness:
  "\<exists>items. sanitizeCart defaultPriceBook [\<lparr> name = ''Small Fries'', qty = JNumber 2 \<rparr>] = Inr items
     \<and> length items = 1 \<and> priceCents (items ! 0) = Cents 299"
  using sanitizeCart_trusted_prices [of "cart friesPickup" defaultPriceBook]
  by (simp add: friesPickup_def defaultPriceBook_fries dom_def)

lemma sanitizeLine_keeps:
  "sanitizeLine PB l = Inr i \<Longrightarrow>
     item_name i = name l \<and> JNumber (of_int (item_qty i)) = qty l"
  by (auto simp: sanitizeLine_def isInteger_def split: option.splits jsvalue.splits if_splits)

text \<open>
  C10. When \<open>sanitizeCart\<close> succeeds, its result has the length and the order of the
  cart: the i-th line carries the name and the quantity of the i-th cart line.
\<close>

theorem sanitizeCart_same_lines:
  assumes "sanitizeCart PB c = Inr items"
  shows "length items = length c
           \<and> (\<forall>i < length c. item_name (items ! i) = name (c ! i)
                 \<and> JNumber (of_int (item_qty (items ! i))) = qty (c ! i))"
  using assms
proof (induction c arbitrary: items)
  case Nil
  then show ?case by simp
next
  case (Cons l ls)
  from Cons.prems obtain i rest where parts:
    "sanitizeLine PB l = Inr i" "sanitizeCart PB ls = Inr rest" "items = i # rest"
    by (auto split: sum.splits)
  from Cons.IH [OF parts(2)] have rest:
    "length rest = length ls"
    "\<forall>j < length ls. item_name (rest ! j) = name (ls ! j)
        \<and> JNumber (of_int (item_qty (rest ! j))) = qty (ls ! j)"
    by auto
  have "\<forall>j < length (l # ls). item_name (items ! j) = name ((l # ls) ! j)
          \<and> JNumber (of_int (item_qty (items ! j))) = qty ((l # ls) ! j)"
  proof (intro allI impI)
    fix j assume "j < length (l # ls)"
    then show "item_name (items ! j) = name ((l # ls) ! j)
          \<and> JNumber (of_int (item_qty (items ! j))) = qty ((l # ls) ! j)"
      using sanitizeLine_keeps [OF parts(1)] rest(2) parts(3) by (cases j) auto
  qed
  with rest(1) parts(3) show ?case by simp
qed

theorem sanitizeCart_same_lines_witness:
  "sanitizeCart defaultPriceBook [\<lparr> name = ''Small Fries'', qty = JNumber 2 \<rparr>]
     = Inr [\<lparr> item_name = ''Small Fries'', item_qty = 2, priceCents = Cents 299 \<rparr>]
   \<and> length [\<lparr> item_name = ''Small Fries'', item_qty = 2, priceCents = Cents 299 \<rparr>] = 1"
  using sanitizeCart_same_lines [of defaultPriceBook
      "[\<lparr> name = ''Small Fries'', qty = JNumber 2 \<rparr>]"
      "[\<lparr> item_name = ''Small Fries'', item_qty = 2, priceCents = Cents 299 \<rparr>]"]
  by (simp add: sanitizeLine_def lookupPrice_def defaultPriceBook_fries)

section \<open>Double precision: results\<close>

lemma roundEven_of_int [simp]: "roundEven (of_int m) = m"
  by (simp add: roundEven_def)

lemma roundEven_upper: "of_int (roundEven y) \<le> y + 1 / 2"
proof -
  define d where "d = y - of_int \<lfloor>y\<rfloor>"
  have y: "y = of_int \<lfloor>y\<rfloor> + d" by (simp add: d_def)
  have d0: "0 \<le> d" by (simp add: d_def)
  consider "d < 1 / 2" | "1 / 2 < d" | "d = 1 / 2" by linarith
  then show ?thesis
  proof cases
    case 1
    then have "roundEven y = \<lfloor>y\<rfloor>" by (simp add: roundEven_def d_def)
    then show ?thesis using y d0 by linarith
  next
    case 2
    then have "roundEven y = \<lfloor>y\<rfloor> + 1" by (simp add: roundEven_def d_def)
    then have "rat_of_int (roundEven y) = of_int \<lfloor>y\<rfloor> + 1" by simp
    then show ?thesis using y 2 by linarith
  next
    case 3
    then have "roundEven y = \<lfloor>y\<rfloor> \<or> roundEven y = \<lfloor>y\<rfloor> + 1"
      by (simp add: roundEven_def d_def Let_def)
    then have "rat_of_int (roundEven y) \<le> of_int \<lfloor>y\<rfloor> + 1" by auto
    then show ?thesis using y 3 by linarith
  qed
qed

lemma roundEven_nonneg: "0 \<le> y \<Longrightarrow> 0 \<le> roundEven y"
  by (auto simp: roundEven_def Let_def)

lemma ilog2_of_int:
  assumes "0 < n"
  shows "ilog2 (of_int n) = bitlen n - 1"
  using assms by (simp add: ilog2_def)

lemma ilog2_lower:
  assumes "1 \<le> a"
  shows "2 powi (ilog2 a) \<le> a"
proof -
  have f: "0 < \<lfloor>a\<rfloor>" using assms by simp
  have "ilog2 a = int (nat (bitlen \<lfloor>a\<rfloor> - 1))"
    using assms bitlen_bounds [OF f] bitlen_nonneg [of "\<lfloor>a\<rfloor>"]
    by (simp add: ilog2_def) (metis bitlen_eq_zero_iff f not_less)
  then have "(2::rat) powi (ilog2 a) = 2 ^ nat (bitlen \<lfloor>a\<rfloor> - 1)"
    by (simp only: power_int_of_nat)
  also have "\<dots> = of_int (2 ^ nat (bitlen \<lfloor>a\<rfloor> - 1))" by simp
  also have "\<dots> \<le> of_int \<lfloor>a\<rfloor>"
    using bitlen_bounds [OF f] by (simp only: of_int_le_iff)
  also have "\<dots> \<le> a" by simp
  finally show ?thesis .
qed

lemma ilog2_small: "a < 1 \<Longrightarrow> ilog2 a \<le> 0"
  using bitlen_nonneg [of "\<lceil>1 / a\<rceil> - 1"] by (simp add: ilog2_def)

lemma nearest_bound: "\<bar>nearest x\<bar> \<le> 2 * \<bar>x\<bar> + 1"
proof (cases "x = 0")
  case True
  then show ?thesis by (simp add: nearest_def)
next
  case False
  define a where "a = \<bar>x\<bar>"
  define e where "e = max (ilog2 a - 52) (- 1074)"
  define m where "m = roundEven (a / 2 powi e)"
  have a: "0 < a" using False by (simp add: a_def)
  have p: "(0::rat) < 2 powi e" by simp
  have m0: "0 \<le> m" using a p by (simp add: m_def roundEven_nonneg)
  have v: "nearest x = sgn x * of_int m * 2 powi e"
    using False by (simp add: nearest_def Let_def a_def e_def m_def)
  have "\<bar>nearest x\<bar> = of_int m * 2 powi e"
    unfolding v using False m0 by (simp add: abs_mult abs_sgn_eq)
  also have "\<dots> \<le> (a / 2 powi e + 1 / 2) * 2 powi e"
    using roundEven_upper [of "a / 2 powi e"] p by (simp add: m_def mult_right_mono)
  also have "\<dots> = a + 2 powi e / 2"
    using p by (simp add: field_simps)
  finally have b: "\<bar>nearest x\<bar> \<le> a + 2 powi e / 2" .
  have "(2::rat) powi e \<le> a + 1"
  proof (cases "1 \<le> a")
    case True
    then have "0 \<le> ilog2 a"
      using bitlen_bounds [of "\<lfloor>a\<rfloor>"] bitlen_eq_zero_iff [of "\<lfloor>a\<rfloor>"] bitlen_nonneg [of "\<lfloor>a\<rfloor>"]
      by (simp add: ilog2_def)
    then have "e \<le> ilog2 a" by (simp add: e_def)
    then have "(2::rat) powi e \<le> 2 powi ilog2 a"
      by (intro power_int_increasing) simp_all
    also have "\<dots> \<le> a" using True by (rule ilog2_lower)
    finally show ?thesis by simp
  next
    case False
    then have "ilog2 a \<le> 0" by (intro ilog2_small) simp
    then have "e \<le> 0" by (simp add: e_def)
    then have "(2::rat) powi e \<le> 2 powi 0"
      by (intro power_int_increasing) simp_all
    then show ?thesis using a by simp
  qed
  with b a show ?thesis unfolding a_def by linarith
qed

lemma double_finite:
  assumes "\<bar>x\<bar> \<le> 2 ^ 1022"
  shows "double x = Number (nearest x)"
proof -
  have "\<bar>nearest x\<bar> \<le> 2 * 2 ^ 1022 + 1"
    using nearest_bound [of x] assms by linarith
  also have "\<dots> < (2::rat) ^ 1024" by simp
  finally have "\<bar>nearest x\<bar> < 2 ^ 1024" .
  then have "\<not> 2 ^ 1024 \<le> nearest x" and "\<not> nearest x \<le> - (2 ^ 1024)"
    by linarith+
  then show ?thesis by (simp add: double_def Let_def)
qed

lemma bitlen_le_53:
  assumes "0 < n" and "n < 2 ^ 53"
  shows "bitlen n \<le> 53"
proof (rule ccontr)
  assume "\<not> bitlen n \<le> 53"
  then have "53 \<le> nat (bitlen n - 1)" by simp
  then have "(2::int) ^ 53 \<le> 2 ^ nat (bitlen n - 1)"
    by (intro power_increasing) simp_all
  also have "\<dots> \<le> n" using bitlen_bounds [OF assms(1)] by simp
  finally show False using assms(2) by simp
qed

lemma nearest_of_nat_exact:
  assumes "0 < n" and "n < 2 ^ 53"
  shows "nearest (of_int n) = of_int n"
proof -
  define e where "e = max (bitlen n - 53) (- 1074)"
  define j where "j = nat (- e)"
  have "e \<le> 0" using bitlen_le_53 [OF assms] by (simp add: e_def)
  then have e: "e = - int j" by (simp add: j_def)
  have p: "(2::rat) powi e = inverse (2 ^ j)"
    unfolding e by (simp add: power_int_minus)
  have "\<bar>rat_of_int n\<bar> / 2 powi e = of_int (n * 2 ^ j)"
    using assms(1) by (simp add: p divide_inverse)
  then have r: "roundEven (\<bar>rat_of_int n\<bar> / 2 powi e) = n * 2 ^ j"
    by (simp only: roundEven_of_int)
  have ee: "max (ilog2 \<bar>rat_of_int n\<bar> - 52) (- 1074) = e"
    using assms(1) by (simp add: e_def ilog2_of_int)
  have "nearest (of_int n)
          = sgn (rat_of_int n) * of_int (roundEven (\<bar>rat_of_int n\<bar> / 2 powi e)) * 2 powi e"
    unfolding nearest_def Let_def ee using assms(1) by simp
  also have "\<dots> = sgn (rat_of_int n) * of_int (n * 2 ^ j) * 2 powi e"
    by (simp only: r)
  also have "\<dots> = of_int n"
    using assms(1) by (simp add: p)
  finally show ?thesis .
qed

lemma nearest_minus: "nearest (- x) = - nearest x"
  by (simp add: nearest_def Let_def)

text \<open>An integer below \<open>2^53\<close> in magnitude is a double.\<close>

lemma nearest_of_int_exact:
  assumes "\<bar>n\<bar> < 2 ^ 53"
  shows "nearest (of_int n) = of_int n"
proof -
  consider "n = 0" | "0 < n" | "n < 0" by linarith
  then show ?thesis
  proof cases
    case 1
    then show ?thesis by (simp add: nearest_def)
  next
    case 2
    with assms show ?thesis by (simp add: nearest_of_nat_exact)
  next
    case 3
    with assms have "nearest (of_int (- n)) = of_int (- n)"
      by (intro nearest_of_nat_exact) simp_all
    then show ?thesis using nearest_minus [of "of_int n"] by simp
  qed
qed

lemma double_of_int_exact:
  assumes "\<bar>n\<bar> < 2 ^ 53"
  shows "double (of_int n) = Number (of_int n)"
proof -
  have a: "\<bar>rat_of_int n\<bar> < 2 ^ 53"
    using assms by (metis of_int_abs of_int_less_numeral_power_cancel_iff)
  have "(2::rat) ^ 53 \<le> 2 ^ 1022"
    by (intro power_increasing) simp_all
  with a have "\<bar>rat_of_int n\<bar> \<le> 2 ^ 1022" by linarith
  then show ?thesis
    by (simp add: double_finite nearest_of_int_exact [OF assms])
qed

section \<open>Totals: results\<close>

lemma sumCents_fold:
  assumes "\<forall>i \<in> set items. priceCents i = Cents (of_int (p i)) \<and> 0 \<le> p i \<and> 0 \<le> item_qty i"
    and "0 \<le> a"
    and "a + (\<Sum>i\<leftarrow>items. p i * item_qty i) < 2 ^ 53"
  shows "foldl (\<lambda>s i. jsadd s (jsmul (toNumber (priceCents i)) (Number (of_int (item_qty i)))))
           (Number (of_int a)) items
         = Number (of_int (a + (\<Sum>i\<leftarrow>items. p i * item_qty i)))"
  using assms
proof (induction items arbitrary: a)
  case Nil
  then show ?case by simp
next
  case (Cons x xs)
  let ?rest = "\<Sum>i\<leftarrow>xs. p i * item_qty i"
  from Cons.prems(1) have x: "priceCents x = Cents (of_int (p x))" "0 \<le> p x" "0 \<le> item_qty x"
    and xs: "\<forall>i \<in> set xs. priceCents i = Cents (of_int (p i)) \<and> 0 \<le> p i \<and> 0 \<le> item_qty i"
    by simp_all
  have rest: "0 \<le> ?rest"
    using xs by (intro sum_list_nonneg) auto
  have prod: "0 \<le> p x * item_qty x" using x by simp
  from Cons.prems(3) have bound: "a + p x * item_qty x + ?rest < 2 ^ 53"
    by (simp add: add.assoc)
  have "\<bar>p x * item_qty x\<bar> < 2 ^ 53"
    using prod rest bound Cons.prems(2) by linarith
  then have m: "jsmul (toNumber (priceCents x)) (Number (of_int (item_qty x)))
                  = Number (of_int (p x * item_qty x))"
    using double_of_int_exact [of "p x * item_qty x"] x(1) by simp
  have "\<bar>a + p x * item_qty x\<bar> < 2 ^ 53"
    using prod rest bound Cons.prems(2) by linarith
  then have s: "jsadd (Number (of_int a)) (Number (of_int (p x * item_qty x)))
                  = Number (of_int (a + p x * item_qty x))"
    using double_of_int_exact [of "a + p x * item_qty x"] by simp
  have "0 \<le> a + p x * item_qty x" using prod Cons.prems(2) by simp
  from Cons.IH [OF xs this bound]
  have "foldl (\<lambda>s i. jsadd s (jsmul (toNumber (priceCents i)) (Number (of_int (item_qty i)))))
           (Number (of_int (a + p x * item_qty x))) xs
         = Number (of_int (a + (\<Sum>i\<leftarrow>x # xs. p i * item_qty i)))"
    by (simp add: add.assoc)
  then show ?case
    by (simp only: foldl_Cons m s)
qed

lemma sumCents_exact:
  assumes "\<forall>i \<in> set items. priceCents i = Cents (of_int (p i)) \<and> 0 \<le> p i \<and> 0 \<le> item_qty i"
    and "(\<Sum>i\<leftarrow>items. p i * item_qty i) < 2 ^ 53"
  shows "sumCents items = Number (of_int (\<Sum>i\<leftarrow>items. p i * item_qty i))"
  using sumCents_fold [OF assms(1), of 0] assms(2) by (simp add: sumCents_def)

lemma nearest_nonneg:
  assumes "0 \<le> x"
  shows "0 \<le> nearest x"
proof (cases "x = 0")
  case True
  then show ?thesis by (simp add: nearest_def)
next
  case False
  with assms have x: "0 < x" by simp
  define e where "e = max (ilog2 \<bar>x\<bar> - 52) (- 1074)"
  have "0 \<le> roundEven (\<bar>x\<bar> / 2 powi e)"
    by (intro roundEven_nonneg) simp
  then have "0 \<le> sgn x * rat_of_int (roundEven (\<bar>x\<bar> / 2 powi e)) * 2 powi e"
    using x by simp
  then show ?thesis using False by (simp add: nearest_def Let_def e_def)
qed

lemma tax_product_finite:
  assumes "0 \<le> base" and "base < 2 ^ 53" and "0 \<le> rate" and "rate < 2 ^ 53"
  shows "jsmul (Number (of_int base)) (jsdiv (Number rate) 100)
           = Number (nearest (of_int base * nearest (rate / 100)))"
    and "0 \<le> nearest (of_int base * nearest (rate / 100))"
proof -
  let ?d = "nearest (rate / 100)"
  have small: "(2::rat) ^ 53 \<le> 2 ^ 1022" "(2::rat) ^ 108 \<le> 2 ^ 1022"
    by (intro power_increasing; simp)+
  have r: "\<bar>rate / 100\<bar> \<le> 2 ^ 53" using assms(3,4) by simp
  with small(1) have "\<bar>rate / 100\<bar> \<le> 2 ^ 1022" by linarith
  then have "double (rate / 100) = Number ?d"
    by (rule double_finite)
  then have d: "jsdiv (Number rate) 100 = Number ?d"
    by (simp only: jsdiv.simps)
  have d0: "0 \<le> ?d" using assms(3) by (intro nearest_nonneg) simp
  have "\<bar>?d\<bar> \<le> 2 * \<bar>rate / 100\<bar> + 1" by (rule nearest_bound)
  with r d0 have d1: "?d \<le> 2 ^ 55" by simp
  have b: "rat_of_int base \<le> 2 ^ 53" "0 \<le> rat_of_int base"
    using assms(1,2) by (simp_all add: less_imp_le)
  have "rat_of_int base * ?d \<le> 2 ^ 53 * 2 ^ 55"
    using b d0 d1 by (intro mult_mono) simp_all
  also have "\<dots> = (2::rat) ^ 108" by (simp only: power_add [symmetric]) simp
  finally have "rat_of_int base * ?d \<le> 2 ^ 1022" using small(2) by linarith
  moreover have p0: "0 \<le> rat_of_int base * ?d" using b d0 by simp
  ultimately have "\<bar>rat_of_int base * ?d\<bar> \<le> 2 ^ 1022"
    by (simp only: abs_of_nonneg)
  then have "double (rat_of_int base * ?d) = Number (nearest (of_int base * ?d))"
    by (rule double_finite)
  then show "jsmul (Number (of_int base)) (jsdiv (Number rate) 100)
           = Number (nearest (of_int base * ?d))"
    by (simp only: d jsmul.simps)
  show "0 \<le> nearest (of_int base * ?d)"
    using p0 by (rule nearest_nonneg)
qed

text \<open>
  C3, amended. For lines whose unit prices are non-negative integers and whose
  quantities are non-negative, a rate \<open>0 \<le> rate < 2^53\<close> and an integer fee \<open>fee \<ge> 0\<close>,
  the sum of the lines plus the fee below \<open>2^53\<close>: the subtotal is the sum of unit
  price times quantity, plus the fee for a delivery; the tax is the double product of
  that subtotal and the double of \<open>rate / 100\<close>, rounded to the nearest integer, a tie
  going up, and \<open>0\<close> when the rate is \<open>0\<close>; the total is the double of subtotal plus
  tax, which is their exact sum below \<open>2^53\<close>. The fee is part of the taxed base.
\<close>

theorem totals_in_doubles:
  assumes lines: "\<forall>i \<in> set items. priceCents i = Cents (of_int (p i)) \<and> 0 \<le> p i \<and> 0 \<le> item_qty i"
    and rate: "TAX_RATE_PERCENT C = Number rate" "0 \<le> rate" "rate < 2 ^ 53"
    and fee: "DELIVERY_FEE_CENTS C = Number (of_int fee)" "0 \<le> fee"
    and range: "(\<Sum>i\<leftarrow>items. p i * item_qty i) + fee < 2 ^ 53"
  shows "let base = (\<Sum>i\<leftarrow>items. p i * item_qty i) + (if isDelivery b then fee else 0);
             tax = \<lfloor>nearest (of_int base * nearest (rate / 100)) + 1 / 2\<rfloor>
         in subtotalCents C b items = Number (of_int base)
            \<and> taxCents C b items = Number (of_int tax)
            \<and> (rate = 0 \<longrightarrow> taxCents C b items = Number 0)
            \<and> totalCents C b items = double (of_int (base + tax))
            \<and> (base + tax < 2 ^ 53 \<longrightarrow> totalCents C b items = Number (of_int (base + tax)))"
proof -
  let ?sum = "\<Sum>i\<leftarrow>items. p i * item_qty i"
  define base where "base = ?sum + (if isDelivery b then fee else 0)"
  define tax where "tax = \<lfloor>nearest (of_int base * nearest (rate / 100)) + 1 / 2\<rfloor>"
  have sum0: "0 \<le> ?sum"
    using lines by (intro sum_list_nonneg) auto
  have base0: "0 \<le> base" and base53: "base < 2 ^ 53"
    using sum0 fee(2) range by (simp_all add: base_def)
  have "?sum < 2 ^ 53" using range fee(2) by linarith
  then have s: "sumCents items = Number (of_int ?sum)"
    using lines by (intro sumCents_exact)
  have "\<bar>?sum + fee\<bar> < 2 ^ 53" using sum0 fee(2) range by linarith
  then have sf: "jsadd (Number (of_int ?sum)) (Number (of_int fee)) = Number (of_int (?sum + fee))"
    using double_of_int_exact [of "?sum + fee"] by simp
  have "\<bar>?sum\<bar> < 2 ^ 53" using sum0 fee(2) range by linarith
  then have s0: "jsadd (Number (of_int ?sum)) (Number 0) = Number (of_int ?sum)"
    using double_of_int_exact [of ?sum] by simp
  have sub: "subtotalCents C b items = Number (of_int base)"
    using sf s0 by (simp add: subtotalCents_def s fee(1) base_def)
  have z: "nearest 0 = 0" by (simp add: nearest_def)
  have h: "\<lfloor>(1::rat) / 2\<rfloor> = 0" by (simp add: floor_eq_iff)
  have taxv: "taxCents C b items = Number (of_int tax)"
  proof (cases "rate = 0")
    case True
    then show ?thesis by (simp add: taxCents_def rate(1) tax_def z h)
  next
    case False
    with rate(2) have "0 < rate" by simp
    then show ?thesis
      using tax_product_finite(1) [OF base0 base53 rate(2,3)]
      by (simp add: taxCents_def rate(1) sub tax_def)
  qed
  have zero: "rate = 0 \<longrightarrow> taxCents C b items = Number 0"
    by (simp add: taxCents_def rate(1))
  have tot: "totalCents C b items = double (of_int (base + tax))"
    by (simp add: totalCents_def sub taxv)
  have tax0: "0 \<le> tax"
    using tax_product_finite(2) [OF base0 base53 rate(2,3)] by (simp add: tax_def)
  have exact: "totalCents C b items = Number (of_int (base + tax))" if "base + tax < 2 ^ 53"
  proof -
    from that base0 tax0 have "\<bar>base + tax\<bar> < 2 ^ 53" by linarith
    then show ?thesis unfolding tot by (rule double_of_int_exact)
  qed
  from sub taxv zero tot exact show ?thesis
    unfolding Let_def base_def [symmetric] tax_def [symmetric] by blast
qed

text \<open>The doubles of the worked examples.\<close>

lemma nearest_rate_8: "nearest (8 / 100) = 5764607523034235 / 72057594037927936"
  by code_simp

lemma nearest_598: "nearest (598 * (5764607523034235 / 72057594037927936))
                      = 1683220360729723 / 35184372088832"
  by code_simp

lemma nearest_898: "nearest (898 * (5764607523034235 / 72057594037927936))
                      = 2527645290861691 / 35184372088832"
  by code_simp

lemma nearest_rate_county: "nearest (35 / 4 / 100) = 3152519739159347 / 36028797018963968"
  by code_simp

lemma nearest_1400: "nearest (1400 * (3152519739159347 / 36028797018963968))
                       = 8620171161763839 / 70368744177664"
  by code_simp

lemma round_598: "\<lfloor>(1683220360729723 / 35184372088832 :: rat) + 1 / 2\<rfloor> = 48"
  by code_simp

lemma round_898: "\<lfloor>(2527645290861691 / 35184372088832 :: rat) + 1 / 2\<rfloor> = 72"
  by code_simp

lemma round_1400: "\<lfloor>(8620171161763839 / 70368744177664 :: rat) + 1 / 2\<rfloor> = 122"
  by code_simp

lemma round_exact_1400: "\<lfloor>(1400::rat) * (35 / 4 / 100) + 1 / 2\<rfloor> = 123"
  by code_simp

lemma isDelivery_friesDelivery: "isDelivery (parsed friesDelivery)"
  by (simp add: isDelivery_def parsed_def friesDelivery_def friesPickup_def)

lemma not_isDelivery_friesPickup: "\<not> isDelivery (parsed friesPickup)"
  by (simp add: isDelivery_def parsed_def friesPickup_def)

lemma not_isDelivery_waterPickup: "\<not> isDelivery (parsed waterPickup)"
  by (simp add: isDelivery_def parsed_def waterPickup_def friesPickup_def)

lemma subtotal_water: "subtotalCents countyRate (parsed waterPickup) waterItems = Number 1400"
proof -
  have "sumCents waterItems = Number (of_int (\<Sum>i\<leftarrow>waterItems. 100 * item_qty i))"
    by (rule sumCents_exact) (simp_all add: waterItems_def)
  then have s: "sumCents waterItems = Number 1400" by (simp add: waterItems_def)
  have "jsadd (Number (of_int 1400)) (Number (of_int 0)) = Number (of_int (1400 + 0))"
    using double_of_int_exact [of "1400 + 0"] by (simp only: jsadd.simps of_int_add) simp
  then show ?thesis
    using not_isDelivery_waterPickup by (simp add: subtotalCents_def s)
qed

text \<open>
  C3, as claimed, does not hold where the double product falls under a half that the
  exact product reaches: fourteen water bottles at a rate of 8.75 percent are 1400
  cents, the exact tax 122.5 rounds up to 123, and the handler computes 122.
\<close>

theorem totals_rounding_counterexample:
  "sanitizeCart defaultPriceBook (cart (parsed waterPickup)) = Inr waterItems
   \<and> subtotalCents countyRate (parsed waterPickup) waterItems = Number 1400
   \<and> taxCents countyRate (parsed waterPickup) waterItems = Number 122
   \<and> \<lfloor>(1400::rat) * (35 / 4 / 100) + 1 / 2\<rfloor> = 123"
proof -
  have w: "defaultPriceBook ''Water Bottle'' = Some 100"
    by (simp add: defaultPriceBook_def)
  have a: "sanitizeCart defaultPriceBook (cart (parsed waterPickup)) = Inr waterItems"
    by (simp add: parsed_def waterPickup_def waterItems_def sanitizeLine_def lookupPrice_def w)
  have "jsmul (Number (of_int 1400)) (jsdiv (Number (35 / 4)) 100)
          = Number (nearest (of_int 1400 * nearest (35 / 4 / 100)))"
    by (rule tax_product_finite) simp_all
  then have "jsmul (Number 1400) (jsdiv (Number (35 / 4)) 100)
          = Number (8620171161763839 / 70368744177664)"
    by (simp only: of_int_numeral nearest_rate_county nearest_1400)
  moreover have "TAX_RATE_PERCENT countyRate = Number (35 / 4)"
    by (simp add: countyRate_def)
  ultimately have t: "taxCents countyRate (parsed waterPickup) waterItems = Number 122"
    by (simp only: taxCents_def subtotal_water jsgt0.simps Math_round.simps round_1400) simp
  from a subtotal_water t round_exact_1400 show ?thesis by simp
qed

theorem totals_in_doubles_witness:
  "subtotalCents sampleConfig (parsed friesDelivery) friesItems = Number 898
   \<and> taxCents sampleConfig (parsed friesDelivery) friesItems = Number 72
   \<and> totalCents sampleConfig (parsed friesDelivery) friesItems = Number 970
   \<and> taxCents (sampleConfig\<lparr> TAX_RATE_PERCENT := Number 0 \<rparr>) (parsed friesDelivery) friesItems
       = Number 0"
proof -
  have p: "\<forall>i \<in> set friesItems. priceCents i = Cents (of_int 299) \<and> (0::int) \<le> 299 \<and> 0 \<le> item_qty i"
    by (simp add: friesItems_def)
  have q: "(\<Sum>i\<leftarrow>friesItems. 299 * item_qty i) = 598"
    by (simp add: friesItems_def)
  have range: "(\<Sum>i\<leftarrow>friesItems. 299 * item_qty i) + 300 < 2 ^ 53"
    by (simp add: q)
  have eight: "TAX_RATE_PERCENT sampleConfig = Number 8"
    and fee: "DELIVERY_FEE_CENTS sampleConfig = Number (of_int 300)"
    by (simp_all add: sampleConfig_def)
  have zero: "TAX_RATE_PERCENT (sampleConfig\<lparr> TAX_RATE_PERCENT := Number 0 \<rparr>) = Number 0"
    and fee0: "DELIVERY_FEE_CENTS (sampleConfig\<lparr> TAX_RATE_PERCENT := Number 0 \<rparr>) = Number (of_int 300)"
    by (simp_all add: sampleConfig_def)
  have n: "nearest (rat_of_int 898 * nearest (8 / 100)) = 2527645290861691 / 35184372088832"
    by (simp only: of_int_numeral nearest_rate_8 nearest_898)
  have t: "\<lfloor>nearest (rat_of_int 898 * nearest (8 / 100)) + 1 / 2\<rfloor> = 72"
    by (simp only: n round_898)
  have d: "double 970 = Number 970"
    using double_of_int_exact [of 970] by simp
  from totals_in_doubles [OF p eight _ _ fee _ range, of "parsed friesDelivery"]
  have a: "subtotalCents sampleConfig (parsed friesDelivery) friesItems = Number 898
       \<and> taxCents sampleConfig (parsed friesDelivery) friesItems = Number 72
       \<and> totalCents sampleConfig (parsed friesDelivery) friesItems = Number 970"
    using isDelivery_friesDelivery t d by (simp add: Let_def q)
  have r0: "(0::rat) \<le> 0" "(0::rat) < 2 ^ 53" and f0: "(0::int) \<le> 300"
    by simp_all
  from totals_in_doubles [OF p zero r0 fee0 f0 range, of "parsed friesDelivery"]
  have "taxCents (sampleConfig\<lparr> TAX_RATE_PERCENT := Number 0 \<rparr>) (parsed friesDelivery) friesItems
       = Number 0"
    unfolding Let_def by blast
  with a show ?thesis by simp
qed

text \<open>The two worked examples: pickup, and the fee line of a delivery.\<close>

lemma pickup_example:
  "subtotalCents sampleConfig (parsed friesPickup) friesItems = Number 598
   \<and> taxCents sampleConfig (parsed friesPickup) friesItems = Number 48
   \<and> totalCents sampleConfig (parsed friesPickup) friesItems = Number 646"
proof -
  have "sumCents friesItems = Number (of_int (\<Sum>i\<leftarrow>friesItems. 299 * item_qty i))"
    by (rule sumCents_exact) (simp_all add: friesItems_def)
  then have s: "sumCents friesItems = Number 598" by (simp add: friesItems_def)
  have e: "double (of_int k) = Number (of_int k)" if "\<bar>k\<bar> < 1000" for k :: int
    using that by (intro double_of_int_exact) simp
  have "jsadd (Number (of_int 598)) (Number (of_int 0)) = Number (of_int (598 + 0))"
    using e [of "598 + 0"] by (simp only: jsadd.simps of_int_add)
  then have sub: "subtotalCents sampleConfig (parsed friesPickup) friesItems = Number 598"
    using not_isDelivery_friesPickup by (simp add: subtotalCents_def s)
  have "jsmul (Number (of_int 598)) (jsdiv (Number 8) 100)
          = Number (nearest (of_int 598 * nearest (8 / 100)))"
    by (rule tax_product_finite) simp_all
  then have "jsmul (Number 598) (jsdiv (Number 8) 100)
          = Number (1683220360729723 / 35184372088832)"
    by (simp only: of_int_numeral nearest_rate_8 nearest_598)
  moreover have "TAX_RATE_PERCENT sampleConfig = Number 8"
    by (simp add: sampleConfig_def)
  ultimately have tax: "taxCents sampleConfig (parsed friesPickup) friesItems = Number 48"
    by (simp only: taxCents_def sub jsgt0.simps Math_round.simps round_598) simp
  have "jsadd (Number (of_int 598)) (Number (of_int 48)) = Number (of_int (598 + 48))"
    using e [of "598 + 48"] by (simp only: jsadd.simps of_int_add)
  then have "totalCents sampleConfig (parsed friesPickup) friesItems = Number 646"
    by (simp add: totalCents_def sub tax)
  with sub tax show ?thesis by simp
qed

lemma delivery_fee_line:
  "line_items_of sampleConfig (parsed friesDelivery) friesItems =
     [\<lparr> line_name = ''Small Fries'', quantity = ToString (Number 2),
         base_price_money = \<lparr> amount = OfItem (Cents 299), currency = ''USD'' \<rparr> \<rparr>,
      \<lparr> line_name = ''Delivery Fee'', quantity = ToString (Number 1),
         base_price_money = \<lparr> amount = OfNumber (Number 300), currency = ''USD'' \<rparr> \<rparr>]"
  using isDelivery_friesDelivery
  by (simp add: line_items_of_def sampleConfig_def friesItems_def)

text \<open>
  A line priced by an inherited member (see C5) has no number for a price: the
  subtotal is \<open>NaN\<close>, and so are tax and total.
\<close>

lemma inherited_price_totals:
  "subtotalCents sampleConfig b
     [\<lparr> item_name = ''constructor'', item_qty = 1, priceCents = Inherited ''constructor'' \<rparr>] = NaN
   \<and> totalCents sampleConfig b
     [\<lparr> item_name = ''constructor'', item_qty = 1, priceCents = Inherited ''constructor'' \<rparr>] = NaN"
  by (simp add: totalCents_def taxCents_def subtotalCents_def sumCents_def sampleConfig_def)

section \<open>Checkout: results\<close>

lemma createOrder_calls:
  "calls (createOrder C R n b items) = [CreateOrder (orderPayload C R n b items)]
   \<or> (\<exists>j. orders_api R (orderPayload C R n b items) = Fetched True j
          \<and> calls (createOrder C R n b items)
              = [CreateOrder (orderPayload C R n b items),
                 CapturePayment (payPayload C R (n + 1) b items (the (order_reply j)))])"
  by (auto simp: createOrder_def takePayment_def Let_def split: fetched.splits option.splits)

lemma createOrder_refused:
  assumes "orders_api R (orderPayload C R n b items) = Fetched False j"
  shows "createOrder C R n b items =
           \<lparr> reply = Failure (OrderCreationFailed
                (orElse (order_errors_detail j) ''Square createOrder failed'')),
             calls = [CreateOrder (orderPayload C R n b items)], uuids = n + 1 \<rparr>"
  using assms by (simp add: createOrder_def Let_def)

lemma checkout_calls:
  "calls (checkout C R n req) = []
   \<or> (\<exists>items. CheckoutBody (isEmail R) req = Inr (parsed req)
         \<and> sanitizeCart (PRICE_BOOK C) (cart (parsed req)) = Inr items
         \<and> checkout C R n req = createOrder C R n (parsed req) items)"
  by (auto simp: checkout_def CheckoutBody_def split: sum.splits)

text \<open>
  C1. In every run of the handler, a payment call is made only as the second remote
  call, after an order call whose reply was ok; and when the order call comes back
  not ok, the request fails with the order-creation error and no payment call is made.
\<close>

theorem payment_only_after_order:
  "(\<forall>pp. CapturePayment pp \<in> set (calls (checkout C R n req)) \<longrightarrow>
      (\<exists>op j. calls (checkout C R n req) = [CreateOrder op, CapturePayment pp]
          \<and> orders_api R op = Fetched True j))
   \<and> (\<forall>op j. CreateOrder op \<in> set (calls (checkout C R n req))
          \<and> orders_api R op = Fetched False j \<longrightarrow>
        (\<exists>d. reply (checkout C R n req) = Failure (OrderCreationFailed d))
        \<and> (\<forall>pp. CapturePayment pp \<notin> set (calls (checkout C R n req))))"
proof -
  consider (none) "calls (checkout C R n req) = []"
    | (sent) items where "checkout C R n req = createOrder C R n (parsed req) items"
    using checkout_calls [of C R n req] by blast
  then show ?thesis
  proof cases
    case none
    then show ?thesis by simp
  next
    case (sent items)
    let ?op = "orderPayload C R n (parsed req) items"
    show ?thesis
    proof (cases "orders_api R ?op")
      case (Rejected m)
      then show ?thesis using sent by (auto simp: createOrder_def Let_def)
    next
      case (Fetched ok j)
      show ?thesis
      proof (cases ok)
        case False
        with Fetched show ?thesis
          using sent createOrder_refused [of R C n "parsed req" items j] by auto
      next
        case True
        with Fetched show ?thesis
          using sent createOrder_calls [of C R n "parsed req" items] by auto
      qed
    qed
  qed
qed

lemma schema_friesPickup: "schemaAccepts (isEmail accepting) friesPickup"
  by (simp add: schemaAccepts_def friesPickup_def sampleContact_def)

lemma schema_friesDeliveryNoAddress: "schemaAccepts (isEmail W) friesDeliveryNoAddress"
  by (simp add: schemaAccepts_def friesDeliveryNoAddress_def friesPickup_def sampleContact_def)

lemma sanitize_fries:
  "sanitizeCart defaultPriceBook [\<lparr> name = ''Small Fries'', qty = JNumber 2 \<rparr>] = Inr friesItems"
  by (simp add: sanitizeLine_def lookupPrice_def defaultPriceBook_fries friesItems_def)

lemma cart_parsed_fries: "cart (parsed friesPickup) = [\<lparr> name = ''Small Fries'', qty = JNumber 2 \<rparr>]"
  by (simp add: parsed_def friesPickup_def)

lemma cart_parsed_friesDNA:
  "cart (parsed friesDeliveryNoAddress) = [\<lparr> name = ''Small Fries'', qty = JNumber 2 \<rparr>]"
  by (simp add: parsed_def friesPickup_def friesDeliveryNoAddress_def)

lemma checkout_fries_sent:
  "checkout sampleConfig W n friesPickup = createOrder sampleConfig W n (parsed friesPickup) friesItems"
proof -
  have "schemaAccepts (isEmail W) friesPickup"
    by (simp add: schemaAccepts_def friesPickup_def sampleContact_def)
  then show ?thesis
    by (simp add: checkout_def CheckoutBody_def cart_parsed_fries sampleConfig_def
        sanitizeLine_def lookupPrice_def defaultPriceBook_fries friesItems_def)
qed

lemma checkout_fries_accepting:
  "checkout sampleConfig accepting 0 friesPickup =
     \<lparr> reply = Success (Some ''order-1'') (Some ''payment-1''),
       calls = [CreateOrder (orderPayload sampleConfig accepting 0 (parsed friesPickup) friesItems),
                CapturePayment (payPayload sampleConfig accepting 1 (parsed friesPickup) friesItems
                   (Some ''order-1''))],
       uuids = 2 \<rparr>"
  unfolding checkout_fries_sent
  by (simp add: createOrder_def takePayment_def Let_def accepting_def)

lemma checkout_fries_refusing:
  "checkout sampleConfig refusing 0 friesPickup =
     \<lparr> reply = Failure (OrderCreationFailed ''Invalid location''),
       calls = [CreateOrder (orderPayload sampleConfig refusing 0 (parsed friesPickup) friesItems)],
       uuids = 1 \<rparr>"
  unfolding checkout_fries_sent
  by (simp add: createOrder_def Let_def refusing_def accepting_def)

theorem payment_only_after_order_witness:
  "CapturePayment (payPayload sampleConfig accepting 1 (parsed friesPickup) friesItems (Some ''order-1''))
      \<in> set (calls (checkout sampleConfig accepting 0 friesPickup))
   \<and> (\<exists>op j. calls (checkout sampleConfig accepting 0 friesPickup)
          = [CreateOrder op,
             CapturePayment (payPayload sampleConfig accepting 1 (parsed friesPickup) friesItems
                (Some ''order-1''))]
        \<and> orders_api accepting op = Fetched True j)
   \<and> CreateOrder (orderPayload sampleConfig refusing 0 (parsed friesPickup) friesItems)
        \<in> set (calls (checkout sampleConfig refusing 0 friesPickup))
   \<and> orders_api refusing (orderPayload sampleConfig refusing 0 (parsed friesPickup) friesItems)
        = Fetched False \<lparr> order_errors_detail = Some ''Invalid location'', order_reply = None \<rparr>
   \<and> (\<exists>d. reply (checkout sampleConfig refusing 0 friesPickup) = Failure (OrderCreationFailed d))
   \<and> (\<forall>pp. CapturePayment pp \<notin> set (calls (checkout sampleConfig refusing 0 friesPickup)))"
proof -
  have a: "CapturePayment (payPayload sampleConfig accepting 1 (parsed friesPickup) friesItems (Some ''order-1''))
      \<in> set (calls (checkout sampleConfig accepting 0 friesPickup))"
    by (simp add: checkout_fries_accepting)
  have b: "CreateOrder (orderPayload sampleConfig refusing 0 (parsed friesPickup) friesItems)
        \<in> set (calls (checkout sampleConfig refusing 0 friesPickup))"
    by (simp add: checkout_fries_refusing)
  have c: "orders_api refusing (orderPayload sampleConfig refusing 0 (parsed friesPickup) friesItems)
        = Fetched False \<lparr> order_errors_detail = Some ''Invalid location'', order_reply = None \<rparr>"
    by (simp add: refusing_def)
  from a b c payment_only_after_order [of sampleConfig accepting 0 friesPickup]
    payment_only_after_order [of sampleConfig refusing 0 friesPickup]
  show ?thesis by blast
qed

section \<open>Delivery address: results\<close>

lemma checkout_valid:
  assumes "schemaAccepts (isEmail R) req"
    and "sanitizeCart (PRICE_BOOK C) (cart (parsed req)) = Inr items"
  shows "checkout C R n req = createOrder C R n (parsed req) items"
  using assms by (simp add: checkout_def CheckoutBody_def)

lemma createOrder_first_call:
  "\<exists>rest. calls (createOrder C R n b items) = CreateOrder (orderPayload C R n b items) # rest"
  using createOrder_calls [of C R n b items] by auto

text \<open>
  C4, as claimed, does not hold: the handler has no check for a delivery without an
  address. The sample delivery request without address succeeds, after both remote
  calls.
\<close>

theorem delivery_without_address_counterexample:
  "reply (checkout sampleConfig accepting 0 friesDeliveryNoAddress)
     = Success (Some ''order-1'') (Some ''payment-1'')
   \<and> calls (checkout sampleConfig accepting 0 friesDeliveryNoAddress)
     = [CreateOrder (orderPayload sampleConfig accepting 0 (parsed friesDeliveryNoAddress) friesItems),
        CapturePayment (payPayload sampleConfig accepting 1 (parsed friesDeliveryNoAddress) friesItems
           (Some ''order-1''))]
   \<and> fulfillment friesDeliveryNoAddress = Some ''delivery''
   \<and> address friesDeliveryNoAddress = None"
proof -
  have "checkout sampleConfig accepting 0 friesDeliveryNoAddress
          = createOrder sampleConfig accepting 0 (parsed friesDeliveryNoAddress) friesItems"
    by (rule checkout_valid)
      (simp_all add: schema_friesDeliveryNoAddress cart_parsed_friesDNA sampleConfig_def
         sanitizeLine_def lookupPrice_def defaultPriceBook_fries friesItems_def)
  then show ?thesis
    by (simp add: createOrder_def takePayment_def Let_def accepting_def
        friesDeliveryNoAddress_def friesPickup_def)
qed

text \<open>
  C4, amended. A delivery request without an address that passes the schema and the
  sanitizer is not rejected: the order is sent to the remote order service, and its
  single fulfillment block is a delivery block whose \<open>delivery_address\<close> is missing.
\<close>

theorem delivery_without_address_is_sent:
  assumes "schemaAccepts (isEmail R) req"
    and "sanitizeCart (PRICE_BOOK C) (cart (parsed req)) = Inr items"
    and "fulfillment req = Some ''delivery''"
    and "address req = None"
  shows "\<exists>op rest. calls (checkout C R n req) = CreateOrder op # rest
           \<and> fulfillments (order op) =
               [\<lparr> fulfillment_type = ''DELIVERY'', state = ''PROPOSED'', pickup = None,
                   delivery = Some \<lparr> recipient = recipient_of (parsed req),
                                     schedule_type = ''ASAP'',
                                     delivery_address = None \<rparr> \<rparr>]"
proof -
  have d: "isDelivery (parsed req)"
    using assms(3) by (simp add: isDelivery_def parsed_def)
  have a: "address (parsed req) = None"
    using assms(4) by (simp add: parsed_def)
  have "fulfillments (order (orderPayload C R n (parsed req) items)) =
          [\<lparr> fulfillment_type = ''DELIVERY'', state = ''PROPOSED'', pickup = None,
              delivery = Some \<lparr> recipient = recipient_of (parsed req),
                                schedule_type = ''ASAP'',
                                delivery_address = None \<rparr> \<rparr>]"
    using d a by (simp add: orderPayload_def orderObj_def fulfillments_of_def delivery_details_of_def)
  then show ?thesis
    using checkout_valid [OF assms(1,2), of n] createOrder_first_call [of C R n "parsed req" items]
    by auto
qed

theorem delivery_without_address_is_sent_witness:
  "\<exists>op rest. calls (checkout sampleConfig accepting 0 friesDeliveryNoAddress) = CreateOrder op # rest
           \<and> fulfillments (order op) =
               [\<lparr> fulfillment_type = ''DELIVERY'', state = ''PROPOSED'', pickup = None,
                   delivery = Some \<lparr> recipient = recipient_of (parsed friesDeliveryNoAddress),
                                     schedule_type = ''ASAP'',
                                     delivery_address = None \<rparr> \<rparr>]"
proof -
  have s: "sanitizeCart (PRICE_BOOK sampleConfig) (cart (parsed friesDeliveryNoAddress)) = Inr friesItems"
    by (simp add: cart_parsed_friesDNA sampleConfig_def
         sanitizeLine_def lookupPrice_def defaultPriceBook_fries friesItems_def)
  have f: "fulfillment friesDeliveryNoAddress = Some ''delivery''"
    by (simp add: friesDeliveryNoAddress_def)
  have a: "address friesDeliveryNoAddress = None"
    by (simp add: friesDeliveryNoAddress_def friesPickup_def)
  show ?thesis
    using delivery_without_address_is_sent [OF schema_friesDeliveryNoAddress s f a] .
qed

section \<open>Rejected carts: results\<close>

lemma lookupPrice_unicorn: "lookupPrice defaultPriceBook ''Unicorn Combo'' = None"
  by (simp add: lookupPrice_def defaultPriceBook_unicorn objectPrototypeKeys_def)

lemma sanitizeLine_unknown:
  "lookupPrice PB (name l) = None \<Longrightarrow> sanitizeLine PB l = Inl (UnknownItem (name l))"
  by (simp add: sanitizeLine_def)

lemma sanitizeLine_known_valid:
  assumes "lookupPrice PB (name l) \<noteq> None" and "qtySchema (qty l)"
  shows "\<exists>i. sanitizeLine PB l = Inr i"
proof -
  from assms(2) obtain r where "qty l = JNumber r" "isInteger r" "0 < r"
    by (cases "qty l") auto
  with assms(1) show ?thesis
    by (auto simp: sanitizeLine_def)
qed

lemma sanitizeLine_bad_qty:
  assumes "lookupPrice PB (name l) \<noteq> None" and "\<not> qtySchema (qty l)"
  shows "sanitizeLine PB l = Inl (InvalidQuantity (name l))"
  using assms by (cases "qty l") (auto simp: sanitizeLine_def)

lemma sanitizeCart_unknown_fails:
  assumes "l \<in> set c" and "lookupPrice PB (name l) = None"
  shows "\<exists>e. sanitizeCart PB c = Inl e"
  using assms
proof (induction c)
  case Nil
  then show ?case by simp
next
  case (Cons x xs)
  show ?case
  proof (cases "sanitizeLine PB x")
    case (Inl e)
    then show ?thesis by simp
  next
    case (Inr i)
    with Cons.prems have "x \<noteq> l"
      using sanitizeLine_unknown [of PB l] by auto
    with Cons have "\<exists>e. sanitizeCart PB xs = Inl e" by auto
    with Inr show ?thesis by auto
  qed
qed

lemma sanitizeCart_first_unknown:
  assumes "\<forall>x \<in> set c. qtySchema (qty x)"
    and "find (\<lambda>x. lookupPrice PB (name x) = None) c = Some u"
  shows "sanitizeCart PB c = Inl (UnknownItem (name u))"
  using assms
proof (induction c)
  case Nil
  then show ?case by simp
next
  case (Cons x xs)
  show ?case
  proof (cases "lookupPrice PB (name x) = None")
    case True
    with Cons.prems(2) have "u = x" by simp
    with True show ?thesis by (simp add: sanitizeLine_unknown)
  next
    case False
    with Cons.prems obtain i where "sanitizeLine PB x = Inr i"
      using sanitizeLine_known_valid [of PB x] by auto
    moreover from False Cons have "sanitizeCart PB xs = Inl (UnknownItem (name u))"
      by auto
    ultimately show ?thesis by simp
  qed
qed

lemma find_unknown_parsed:
  "find (\<lambda>x. lookupPrice PB (name x) = None) (cart (parsed req))
     = map_option (\<lambda>l. \<lparr> name = name l, qty = qty l \<rparr>)
         (find (\<lambda>x. lookupPrice PB (name x) = None) (cart req))"
proof -
  have "find (\<lambda>x. lookupPrice PB (name x) = None) (map (\<lambda>l. \<lparr> name = name l, qty = qty l \<rparr>) rc)
     = map_option (\<lambda>l. \<lparr> name = name l, qty = qty l \<rparr>)
         (find (\<lambda>x. lookupPrice PB (name x) = None) rc)" for rc :: "raw_cart_line list"
    by (induction rc) auto
  then show ?thesis by (simp add: parsed_def)
qed

text \<open>
  A name that the price lookup does not find is turned away: \<open>sanitizeCart\<close> fails,
  the request fails, and no remote call is made; for a request the schema accepts the
  error is \<open>UnknownItem\<close> of the first such line.
\<close>

lemma unfound_name_rejected:
  assumes "l \<in> set (cart req)" and "lookupPrice (PRICE_BOOK C) (name l) = None"
  shows "(\<exists>e. sanitizeCart (PRICE_BOOK C) (cart (parsed req)) = Inl e)
       \<and> (\<exists>e. reply (checkout C R n req) = Failure e)
       \<and> calls (checkout C R n req) = []
       \<and> (\<exists>u. find (\<lambda>x. lookupPrice (PRICE_BOOK C) (name x) = None) (cart req) = Some u
            \<and> ((\<forall>x \<in> set (cart req). qtySchema (qty x)) \<longrightarrow>
                 sanitizeCart (PRICE_BOOK C) (cart (parsed req)) = Inl (UnknownItem (name u)))
            \<and> (schemaAccepts (isEmail R) req \<longrightarrow>
                 reply (checkout C R n req) = Failure (UnknownItem (name u))))"
proof -
  let ?PB = "PRICE_BOOK C"
  let ?strip = "\<lambda>l::raw_cart_line. \<lparr> name = name l, qty = qty l \<rparr>"
  have "?strip l \<in> set (cart (parsed req))"
    using assms(1) by (auto simp: parsed_def)
  moreover have "lookupPrice ?PB (name (?strip l)) = None"
    using assms(2) by simp
  ultimately obtain e where e: "sanitizeCart ?PB (cart (parsed req)) = Inl e"
    using sanitizeCart_unknown_fails [of "?strip l" "cart (parsed req)" ?PB] by blast
  then have fail: "(\<exists>e. reply (checkout C R n req) = Failure e) \<and> calls (checkout C R n req) = []"
    by (simp add: checkout_def CheckoutBody_def)
  from assms obtain u where u: "find (\<lambda>x. lookupPrice ?PB (name x) = None) (cart req) = Some u"
    by (cases "find (\<lambda>x. lookupPrice ?PB (name x) = None) (cart req)") (auto simp: find_None_iff)
  then have pu: "find (\<lambda>x. lookupPrice ?PB (name x) = None) (cart (parsed req)) = Some (?strip u)"
    by (simp add: find_unknown_parsed)
  have first: "sanitizeCart ?PB (cart (parsed req)) = Inl (UnknownItem (name u))"
    if "\<forall>x \<in> set (cart req). qtySchema (qty x)"
    using sanitizeCart_first_unknown [OF _ pu] that by (simp add: parsed_def)
  have "reply (checkout C R n req) = Failure (UnknownItem (name u))"
    if "schemaAccepts (isEmail R) req"
  proof -
    from that have "\<forall>x \<in> set (cart req). qtySchema (qty x)"
      by (simp add: schemaAccepts_def list_all_iff)
    with that first show ?thesis
      by (simp add: checkout_def CheckoutBody_def)
  qed
  with e fail u first show ?thesis by blast
qed

lemma checkout_unicorn:
  "checkout sampleConfig accepting 0 unicorn
     = \<lparr> reply = Failure (UnknownItem ''Unicorn Combo''), calls = [], uuids = 0 \<rparr>"
proof -
  have "schemaAccepts (isEmail accepting) unicorn"
    by (simp add: schemaAccepts_def unicorn_def friesPickup_def sampleContact_def)
  then show ?thesis
    by (simp add: checkout_def CheckoutBody_def parsed_def unicorn_def sampleConfig_def
        sanitizeLine_def lookupPrice_unicorn)
qed

lemma lookupPrice_fries: "lookupPrice defaultPriceBook ''Small Fries'' = Some (Cents 299)"
  by (simp add: lookupPrice_def defaultPriceBook_fries)

lemma defaultPriceBook_constructor: "defaultPriceBook ''constructor'' = None"
  by (simp add: defaultPriceBook_def)

text \<open>
  C5, on the code: \<open>constructor\<close> is absent from the price book, yet the property
  read \<open>PRICE_BOOK[name]\<close> yields the member every object inherits, which is not
  \<open>null\<close>. The cart passes the sanitizer with a price that is not a number, and the
  request goes on to both remote calls instead of failing with \<open>UnknownItem\<close>.
\<close>

theorem inherited_name_accepted:
  "defaultPriceBook ''constructor'' = None
   \<and> schemaAccepts (isEmail accepting) constructorCart
   \<and> sanitizeCart defaultPriceBook (cart (parsed constructorCart))
       = Inr [\<lparr> item_name = ''constructor'', item_qty = 1, priceCents = Inherited ''constructor'' \<rparr>]
   \<and> reply (checkout sampleConfig accepting 0 constructorCart)
       = Success (Some ''order-1'') (Some ''payment-1'')
   \<and> length (calls (checkout sampleConfig accepting 0 constructorCart)) = 2"
proof -
  have l: "lookupPrice defaultPriceBook ''constructor'' = Some (Inherited ''constructor'')"
    by (simp add: lookupPrice_def defaultPriceBook_constructor objectPrototypeKeys_def)
  have a: "schemaAccepts (isEmail accepting) constructorCart"
    by (simp add: schemaAccepts_def constructorCart_def friesPickup_def sampleContact_def)
  have s: "sanitizeCart defaultPriceBook (cart (parsed constructorCart))
     = Inr [\<lparr> item_name = ''constructor'', item_qty = 1, priceCents = Inherited ''constructor'' \<rparr>]"
    by (simp add: parsed_def constructorCart_def sanitizeLine_def l)
  have "checkout sampleConfig accepting 0 constructorCart
      = createOrder sampleConfig accepting 0 (parsed constructorCart)
          [\<lparr> item_name = ''constructor'', item_qty = 1, priceCents = Inherited ''constructor'' \<rparr>]"
    using a by (rule checkout_valid) (simp add: s sampleConfig_def)
  then have "reply (checkout sampleConfig accepting 0 constructorCart)
       = Success (Some ''order-1'') (Some ''payment-1'')
     \<and> length (calls (checkout sampleConfig accepting 0 constructorCart)) = 2"
    by (simp add: createOrder_def takePayment_def Let_def accepting_def)
  with defaultPriceBook_constructor a s show ?thesis by simp
qed

lemma schema_bad_qty:
  assumes "l \<in> set (cart req)" and "\<not> qtySchema (qty l)"
  shows "\<not> schemaAccepts ok req"
  using assms by (auto simp: schemaAccepts_def list_all_iff)

lemma sanitizeCart_append_bad:
  assumes "sanitizeCart PB pre = Inr is" and "sanitizeLine PB l = Inl e"
  shows "sanitizeCart PB (pre @ l # post) = Inl e"
  using assms by (induction pre arbitrary: "is") (auto split: sum.splits)

text \<open>
  C6, as claimed, does not hold: a request with quantity \<open>0\<close> is turned away by the
  schema, before \<open>sanitizeCart\<close> runs, and the error is not the quantity error of the
  sanitizer.
\<close>

theorem bad_quantity_counterexample:
  "reply (checkout sampleConfig accepting 0 zeroFries) = Failure MalformedRequest"
proof -
  have "\<not> schemaAccepts (isEmail accepting) zeroFries"
    by (simp add: schemaAccepts_def zeroFries_def)
  then show ?thesis by (simp add: checkout_def CheckoutBody_def)
qed

text \<open>
  C6, amended. A request with a cart line whose quantity is not a positive integer
  (zero, negative, fractional, missing, or not a number) fails at the schema with
  \<open>MalformedRequest\<close>, with no remote call and no UUID drawn. \<open>sanitizeCart\<close> itself,
  given such a line with a name the lookup finds after lines that pass, fails with
  \<open>InvalidQuantity\<close> for that line.
\<close>

theorem bad_quantity_rejected_by_schema:
  assumes "\<not> qtySchema (qty l)"
  shows "(l \<in> set (cart req) \<longrightarrow>
            checkout C R n req = \<lparr> reply = Failure MalformedRequest, calls = [], uuids = n \<rparr>)
       \<and> (lookupPrice PB (name l) \<noteq> None \<and> sanitizeCart PB pre = Inr is \<longrightarrow>
            sanitizeCart PB (pre @ \<lparr> name = name l, qty = qty l \<rparr> # post)
              = Inl (InvalidQuantity (name l)))"
proof (intro conjI impI)
  assume "l \<in> set (cart req)"
  then have "\<not> schemaAccepts (isEmail R) req"
    using assms by (rule schema_bad_qty)
  then show "checkout C R n req = \<lparr> reply = Failure MalformedRequest, calls = [], uuids = n \<rparr>"
    by (simp add: checkout_def CheckoutBody_def)
next
  assume a: "lookupPrice PB (name l) \<noteq> None \<and> sanitizeCart PB pre = Inr is"
  have "sanitizeLine PB \<lparr> name = name l, qty = qty l \<rparr> = Inl (InvalidQuantity (name l))"
    using sanitizeLine_bad_qty [of PB "\<lparr> name = name l, qty = qty l \<rparr>"] a assms by simp
  with a show "sanitizeCart PB (pre @ \<lparr> name = name l, qty = qty l \<rparr> # post)
      = Inl (InvalidQuantity (name l))"
    by (simp add: sanitizeCart_append_bad)
qed

theorem bad_quantity_rejected_by_schema_witness:
  "checkout sampleConfig accepting 0 zeroFries
     = \<lparr> reply = Failure MalformedRequest, calls = [], uuids = 0 \<rparr>
   \<and> checkout sampleConfig accepting 0 missingQty
     = \<lparr> reply = Failure MalformedRequest, calls = [], uuids = 0 \<rparr>
   \<and> sanitizeCart defaultPriceBook [\<lparr> name = ''Small Fries'', qty = JNumber 0 \<rparr>]
     = Inl (InvalidQuantity ''Small Fries'')
   \<and> sanitizeCart defaultPriceBook [\<lparr> name = ''Small Fries'', qty = JUndefined \<rparr>]
     = Inl (InvalidQuantity ''Small Fries'')"
proof -
  let ?z = "\<lparr> name = ''Small Fries'', qty = JNumber 0, client_priceCents = JUndefined \<rparr>"
  let ?m = "\<lparr> name = ''Small Fries'', qty = JUndefined, client_priceCents = JUndefined \<rparr>"
  have z: "\<not> qtySchema (qty ?z)" and m: "\<not> qtySchema (qty ?m)" by simp_all
  have zc: "?z \<in> set (cart zeroFries)" by (simp add: zeroFries_def)
  have mc: "?m \<in> set (cart missingQty)" by (simp add: missingQty_def)
  have e: "sanitizeCart defaultPriceBook [] = Inr []" by simp
  from bad_quantity_rejected_by_schema [OF z, of zeroFries sampleConfig accepting 0 defaultPriceBook "[]" "[]" "[]"]
    bad_quantity_rejected_by_schema [OF m, of missingQty sampleConfig accepting 0 defaultPriceBook "[]" "[]" "[]"]
    zc mc e lookupPrice_fries
  show ?thesis by simp
qed

section \<open>Fulfillment block: results\<close>

text \<open>
  C7. The order built for a parsed body has exactly one fulfillment block. For a
  pickup it holds the pickup details only: \<open>SCHEDULED\<close> with \<open>pickup_at\<close> the time
  given when a (non-empty) pickup time is given, \<open>ASAP\<close> otherwise. For a delivery it
  holds the delivery details only, always \<open>ASAP\<close>: a text address becomes the first
  address line with country \<open>US\<close>, an address object keeps its fields, its country
  replaced by \<open>US\<close> when absent (or empty).
\<close>

theorem one_fulfillment_block:
  "\<exists>f. fulfillments (orderObj C b items) = [f]
     \<and> (\<not> isDelivery b \<longrightarrow>
           fulfillment_type f = ''PICKUP'' \<and> delivery f = None
           \<and> (\<exists>pd. pickup f = Some pd \<and> recipient pd = recipient_of b
                 \<and> (\<forall>t. pickupTime b = Some t \<and> t \<noteq> [] \<longrightarrow>
                        schedule_type pd = ''SCHEDULED'' \<and> pickup_at pd = Some t)
                 \<and> (pickupTime b = None \<or> pickupTime b = Some [] \<longrightarrow>
                        schedule_type pd = ''ASAP'')))
     \<and> (isDelivery b \<longrightarrow>
           fulfillment_type f = ''DELIVERY'' \<and> pickup f = None
           \<and> (\<exists>dd. delivery f = Some dd \<and> recipient dd = recipient_of b
                 \<and> schedule_type dd = ''ASAP''
                 \<and> (\<forall>s. address b = Some (AddressText s) \<longrightarrow>
                        delivery_address dd =
                          Some \<lparr> address_line_1 = s, locality = None,
                                 administrative_district_level_1 = None, postal_code = None,
                                 country = Some ''US'' \<rparr>)
                 \<and> (\<forall>a. address b = Some (AddressObject a) \<longrightarrow>
                        delivery_address dd =
                          Some (a\<lparr> country :=
                                   Some (case country a of
                                           None \<Rightarrow> ''US''
                                         | Some c \<Rightarrow> if c = [] then ''US'' else c) \<rparr>))))"
proof (cases "isDelivery b")
  case True
  then show ?thesis
    by (auto simp: orderObj_def fulfillments_of_def delivery_details_of_def split: option.splits)
next
  case False
  then show ?thesis
    by (auto simp: orderObj_def fulfillments_of_def pickup_details_of_def)
qed

theorem one_fulfillment_block_witness:
  "\<not> isDelivery (parsed friesScheduled)
   \<and> pickupTime (parsed friesScheduled) = Some ''2025-01-01T12:00:00Z''
   \<and> (\<exists>f pd. fulfillments (orderObj sampleConfig (parsed friesScheduled) friesItems) = [f]
         \<and> pickup f = Some pd \<and> schedule_type pd = ''SCHEDULED''
         \<and> pickup_at pd = Some ''2025-01-01T12:00:00Z'')
   \<and> \<not> isDelivery (parsed friesPickup)
   \<and> pickupTime (parsed friesPickup) = None
   \<and> (\<exists>f pd. fulfillments (orderObj sampleConfig (parsed friesPickup) friesItems) = [f]
         \<and> pickup f = Some pd \<and> schedule_type pd = ''ASAP'')
   \<and> isDelivery (parsed friesDelivery)
   \<and> address (parsed friesDelivery) = Some (AddressText ''123 Main St'')
   \<and> (\<exists>f dd. fulfillments (orderObj sampleConfig (parsed friesDelivery) friesItems) = [f]
         \<and> delivery f = Some dd \<and> schedule_type dd = ''ASAP''
         \<and> delivery_address dd =
              Some \<lparr> address_line_1 = ''123 Main St'', locality = None,
                     administrative_district_level_1 = None, postal_code = None,
                     country = Some ''US'' \<rparr>)
   \<and> isDelivery (parsed friesDeliveryObject)
   \<and> address (parsed friesDeliveryObject) = Some (AddressObject sampleAddress)
   \<and> (\<exists>f dd. fulfillments (orderObj sampleConfig (parsed friesDeliveryObject) friesItems) = [f]
         \<and> delivery f = Some dd
         \<and> delivery_address dd = Some (sampleAddress\<lparr> country := Some ''US'' \<rparr>))"
proof -
  have s1: "\<not> isDelivery (parsed friesScheduled)"
    and s2: "pickupTime (parsed friesScheduled) = Some ''2025-01-01T12:00:00Z''"
    by (simp_all add: isDelivery_def parsed_def friesScheduled_def friesPickup_def)
  have p1: "\<not> isDelivery (parsed friesPickup)"
    and p2: "pickupTime (parsed friesPickup) = None"
    by (simp_all add: isDelivery_def parsed_def friesPickup_def)
  have d1: "isDelivery (parsed friesDelivery)"
    and d2: "address (parsed friesDelivery) = Some (AddressText ''123 Main St'')"
    by (simp_all add: isDelivery_def parsed_def friesDelivery_def friesPickup_def)
  have o1: "isDelivery (parsed friesDeliveryObject)"
    and o2: "address (parsed friesDeliveryObject) = Some (AddressObject sampleAddress)"
    by (simp_all add: isDelivery_def parsed_def friesDeliveryObject_def friesPickup_def)
  have o3: "country sampleAddress = None"
    by (simp add: sampleAddress_def)
  have a: "\<exists>f pd. fulfillments (orderObj sampleConfig (parsed friesScheduled) friesItems) = [f]
         \<and> pickup f = Some pd \<and> schedule_type pd = ''SCHEDULED''
         \<and> pickup_at pd = Some ''2025-01-01T12:00:00Z''"
    using one_fulfillment_block [of sampleConfig "parsed friesScheduled" friesItems] s1 s2
    by auto
  have b: "\<exists>f pd. fulfillments (orderObj sampleConfig (parsed friesPickup) friesItems) = [f]
         \<and> pickup f = Some pd \<and> schedule_type pd = ''ASAP''"
    using one_fulfillment_block [of sampleConfig "parsed friesPickup" friesItems] p1 p2
    by auto
  have c: "\<exists>f dd. fulfillments (orderObj sampleConfig (parsed friesDelivery) friesItems) = [f]
         \<and> delivery f = Some dd \<and> schedule_type dd = ''ASAP''
         \<and> delivery_address dd =
              Some \<lparr> address_line_1 = ''123 Main St'', locality = None,
                     administrative_district_level_1 = None, postal_code = None,
                     country = Some ''US'' \<rparr>"
    using one_fulfillment_block [of sampleConfig "parsed friesDelivery" friesItems] d1 d2
    by auto
  have d: "\<exists>f dd. fulfillments (orderObj sampleConfig (parsed friesDeliveryObject) friesItems) = [f]
         \<and> delivery f = Some dd
         \<and> delivery_address dd = Some (sampleAddress\<lparr> country := Some ''US'' \<rparr>)"
    using one_fulfillment_block [of sampleConfig "parsed friesDeliveryObject" friesItems] o1 o2 o3
    by auto
  from s1 s2 a p1 p2 b d1 d2 c o1 o2 d show ?thesis by blast
qed

section \<open>Idempotency keys: results\<close>

text \<open>
  The keys of a request taken alone, started with the counter at \<open>n\<close>, are the draws
  of \<open>crypto.randomUUID()\<close> from \<open>n\<close> on, one per remote call: nothing of the request goes
  into a key, and no draw is used twice. Whether two draws differ is up to the
  generator.
\<close>

lemma createOrder_keys:
  "map key_of (calls (createOrder C R n b items))
     = map (randomUUID R) [n ..< uuids (createOrder C R n b items)]
   \<and> n < uuids (createOrder C R n b items)"
  by (auto simp: createOrder_def takePayment_def orderPayload_def payPayload_def Let_def
        upt_rec [of n] upt_rec [of "Suc n"]
      split: fetched.splits option.splits)

lemma checkout_keys:
  "map key_of (calls (checkout C R n req))
     = map (randomUUID R) [n ..< uuids (checkout C R n req)]
   \<and> n \<le> uuids (checkout C R n req)"
proof (cases "calls (checkout C R n req) = [] \<and> uuids (checkout C R n req) = n")
  case True
  then show ?thesis by simp
next
  case False
  then obtain items where "checkout C R n req = createOrder C R n (parsed req) items"
    by (auto simp: checkout_def CheckoutBody_def split: sum.splits if_splits)
  then show ?thesis
    using createOrder_keys [of C R n "parsed req" items] by simp
qed

section \<open>Browser cart: results\<close>

lemma parseInt_abc: "parseInt (map of_char ''abc'') = NaN"
  by (simp add: parseInt_def isWhiteSpace_def isDigit_def)

lemma coerceQty_abc: "coerceQty (Text ''abc'') = NaN"
  using parseInt_abc by (simp add: coerceQty_def Text_def)

lemma double_small: "\<bar>k\<bar> < 1000 \<Longrightarrow> double (of_int k) = Number (of_int k)"
  by (intro double_of_int_exact) simp

lemma parseInt_3: "parseInt (map of_char '' 3 boxes'') = Number 3"
  using double_small [of 3]
  by (simp add: parseInt_def isWhiteSpace_def isDigit_def digitsValue_def)

lemma parseInt_nbsp: "parseInt [0xA0, 0x35] = Number 5"
  using double_small [of 5]
  by (simp add: parseInt_def isWhiteSpace_def isDigit_def digitsValue_def)

text \<open>
  C9, on the code: for a non-empty string without a leading number, such as \<open>abc\<close>,
  \<open>parseInt\<close> gives \<open>NaN\<close> and \<open>Math.max(1, NaN)\<close> is \<open>NaN\<close>, so \<open>addItem\<close> (on a new
  row and on an existing one) and \<open>setQty\<close> store a quantity that is not a number
  instead of \<open>1\<close>.
\<close>

theorem cart_quantity_not_a_number:
  "addItem ''Small Fries'' 299 (Text ''abc'') []
     = [\<lparr> row_name = ''Small Fries'', row_priceCents = 299, row_qty = NaN \<rparr>]
   \<and> addItem ''Small Fries'' 299 (Text ''abc'') [friesRow]
     = [\<lparr> row_name = ''Small Fries'', row_priceCents = 299, row_qty = NaN \<rparr>]
   \<and> setQty 0 (Text ''abc'') [friesRow]
     = [\<lparr> row_name = ''Small Fries'', row_priceCents = 299, row_qty = NaN \<rparr>]"
  by (simp add: addItem_def setQty_def coerceQty_abc friesRow_def)

text \<open>
  Apart from \<open>NaN\<close>, the coerced quantity is an integer of at least \<open>1\<close>, or
  \<open>Infinity\<close> for a numeral beyond the range of doubles.
\<close>

lemma nearest_of_int_integer: "\<exists>k'. nearest (of_int k) = of_int k'"
proof (cases "\<bar>k\<bar> < 2 ^ 53")
  case True
  then show ?thesis using nearest_of_int_exact by blast
next
  case False
  define a where "a = \<bar>rat_of_int k\<bar>"
  define n where "n = \<bar>k\<bar>"
  have n: "2 ^ 53 \<le> n" "0 < n" using False by (simp_all add: n_def)
  have an: "a = of_int n" by (simp add: a_def n_def)
  have "(2::int) ^ 53 < 2 ^ nat (bitlen n)"
    using bitlen_bounds [OF n(2)] n(1) by linarith
  then have "53 < nat (bitlen n)"
    by (simp only: power_strict_increasing_iff)
  then have "1 \<le> ilog2 a - 52"
    using n(2) by (simp add: an ilog2_of_int)
  then have "max (ilog2 a - 52) (- 1074) = int (nat (ilog2 a - 52))"
    by simp
  then obtain j :: nat where j: "max (ilog2 a - 52) (- 1074) = int j" ..
  have "k \<noteq> 0" using n by (auto simp: n_def)
  then have "nearest (of_int k)
      = sgn (rat_of_int k) * of_int (roundEven (a / 2 powi (int j))) * 2 powi (int j)"
    by (simp add: nearest_def Let_def a_def [symmetric] j)
  also have "\<dots> = of_int (sgn k * roundEven (a / 2 powi (int j)) * 2 ^ j)"
    by (simp add: sgn_if)
  finally show ?thesis by blast
qed

lemma parseInt_shape:
  "parseInt s = NaN \<or> parseInt s = Infinity \<or> parseInt s = NegInfinity
   \<or> (\<exists>k::int. parseInt s = Number (of_int k))"
proof -
  have "double (of_int z) = Infinity \<or> double (of_int z) = NegInfinity
          \<or> (\<exists>k::int. double (of_int z) = Number (of_int k))" for z :: int
    using nearest_of_int_integer [of z] by (auto simp: double_def Let_def)
  then show ?thesis
    by (simp add: parseInt_def Let_def)
qed

lemma coerceQty_shape:
  "coerceQty q = NaN \<or> coerceQty q = Infinity
   \<or> (\<exists>k::int. 1 \<le> k \<and> coerceQty q = Number (of_int k))"
proof -
  have m: "Math_max1 x = NaN \<or> Math_max1 x = Infinity
            \<or> (\<exists>k::int. 1 \<le> k \<and> Math_max1 x = Number (of_int k))"
    if "x = NaN \<or> x = Infinity \<or> x = NegInfinity \<or> (\<exists>k::int. x = Number (of_int k))" for x
  proof -
    have "\<exists>k'::int. 1 \<le> k' \<and> Number (max 1 (rat_of_int k)) = Number (of_int k')" for k :: int
      by (intro exI [of _ "max 1 k"]) (simp add: max_def)
    moreover have "\<exists>k'::int. 1 \<le> k' \<and> Number 1 = Number (of_int k')"
      by (intro exI [of _ 1]) simp
    ultimately show ?thesis using that by auto
  qed
  show ?thesis
  proof (cases "or1 q")
    case Omitted
    then show ?thesis by (simp add: coerceQty_def)
  next
    case (Units s)
    then show ?thesis using m [OF parseInt_shape [of s]] by (simp add: coerceQty_def)
  next
    case (Count n)
    then show ?thesis using m [of "Number (of_int n)"] by (simp add: coerceQty_def)
  qed
qed

lemma coerceQty_defaults:
  "coerceQty Omitted = Number 1" "coerceQty (Text []) = Number 1" "coerceQty (Count 0) = Number 1"
  using double_small [of 1]
  by (simp_all add: coerceQty_def Text_def parseInt_def isWhiteSpace_def isDigit_def digitsValue_def)

end
